theory Spec2Isabelle
  imports Complex_Main "HOL-Library.Finite_Map"
begin

section \<open>Python values, exceptions and the configuration model\<close>

text \<open>
  The module \<^verbatim>\<open>qualibration_libs/plotting/standard_plotter.py\<close> turns a declarative
  plot configuration and per-qubit data into a grid of panels, once for Plotly
  (\<^verbatim>\<open>create_plotly_figure\<close>) and once for Matplotlib (\<^verbatim>\<open>create_matplotlib_figure\<close>).
  An exception of the Python code is the left summand of the result, the returned
  figure the right one.
\<close>

datatype py_error = KeyError | IndexError | ZeroDivisionError | TypeError | ValueError

definition ebind :: "'e + 'a \<Rightarrow> ('a \<Rightarrow> 'e + 'b) \<Rightarrow> 'e + 'b" where
  "ebind m f = (case m of Inl e \<Rightarrow> Inl e | Inr v \<Rightarrow> f v)"

text \<open>A list comprehension whose element expression may raise: the first exception wins.\<close>

fun map_err :: "('a \<Rightarrow> 'e + 'b) \<Rightarrow> 'a list \<Rightarrow> 'e + 'b list" where
  "map_err f [] = Inr []"
| "map_err f (x # xs) = ebind (f x) (\<lambda>y. ebind (map_err f xs) (\<lambda>ys. Inr (y # ys)))"

text \<open>
  The values of the open \<^verbatim>\<open>style\<close> and \<^verbatim>\<open>legend\<close> dictionaries (\<^verbatim>\<open>style: Dict\<close>):
  None, strings, numbers, lists and nested dictionaries, as in
  \<^verbatim>\<open>{"color": "blue", "dash": "dot", "width": 2}\<close>. Python compares numbers by value, so
  one numeric constructor stands for int, float and bool. A dictionary is a finite map:
  two dictionaries are equal when they hold the same items, in any order.
\<close>

datatype py_value =
    PyNone
  | PyStr string
  | PyNum rat
  | PyList "py_value list"
  | PyDict "(string, py_value) fmap"

text \<open>Lists and dictionaries cannot be hashed: using one as a dictionary key raises
  TypeError.\<close>

fun hashable :: "py_value \<Rightarrow> bool" where
  "hashable (PyList xs) = False"
| "hashable (PyDict d) = False"
| "hashable v = True"

type_synonym py_dict = "(string, py_value) fmap"

datatype plot_type = Scatter | Heatmap | Line

record trace_config =
  plot_type :: plot_type
  x_source :: string
  y_source :: string
  z_source :: "string option"
  name :: string
  mode :: "string option"
  style :: py_dict
  hover_template :: "string option"
  custom_data_sources :: "string list"
  visible :: bool

record layout_config =
  title :: string
  x_axis_title :: string
  y_axis_title :: string
  legend :: py_dict

record plot_config =
  layout :: layout_config
  traces :: "trace_config list"
  fit_traces :: "trace_config list"

text \<open>Of a qubit object the builders read the grid location only.\<close>

record transmon =
  grid_location :: string

section \<open>Datasets\<close>

text \<open>
  An \<^verbatim>\<open>xarray.Dataset\<close> after \<^verbatim>\<open>.sel(qubit=...)\<close>: its variables by name (values of an
  opaque array type \<open>'v\<close>) and the names among them that are coordinates.
  \<^verbatim>\<open>key in ds\<close> and \<^verbatim>\<open>ds[key]\<close> see every variable; the truth value of a dataset is
  that of its data variables, the variables that are not coordinates.
\<close>

record 'v xr_slice =
  variables :: "(string \<times> 'v) list"
  coord_names :: "string list"

text \<open>The dataset with its qubit axis: the slice of each qubit identifier it holds.\<close>

type_synonym 'v dataset = "string \<rightharpoonup> 'v xr_slice"

definition ds_contains :: "'v xr_slice \<Rightarrow> string \<Rightarrow> bool" where
  "ds_contains ds key = (map_of (variables ds) key \<noteq> None)"

definition ds_getitem :: "'v xr_slice \<Rightarrow> string \<Rightarrow> py_error + 'v" where
  "ds_getitem ds key = (case map_of (variables ds) key of None \<Rightarrow> Inl KeyError | Some v \<Rightarrow> Inr v)"

definition data_vars :: "'v xr_slice \<Rightarrow> (string \<times> 'v) list" where
  "data_vars ds = filter (\<lambda>kv. fst kv \<notin> set (coord_names ds)) (variables ds)"

text \<open>\<^verbatim>\<open>bool(ds)\<close> is \<^verbatim>\<open>bool(ds.data_vars)\<close>.\<close>

definition ds_bool :: "'v xr_slice \<Rightarrow> bool" where
  "ds_bool ds = (data_vars ds \<noteq> [])"

definition sel_qubit :: "'v dataset \<Rightarrow> string \<Rightarrow> py_error + 'v xr_slice" where
  "sel_qubit ds qubit_id = (case ds qubit_id of None \<Rightarrow> Inl KeyError | Some s \<Rightarrow> Inr s)"

text \<open>\<^verbatim>\<open>ds_fit.sel(qubit=qubit_id) if ds_fit is not None else None\<close>\<close>

definition sel_fit :: "'v dataset option \<Rightarrow> string \<Rightarrow> py_error + 'v xr_slice option" where
  "sel_fit ds_fit qubit_id =
     (case ds_fit of None \<Rightarrow> Inr None
      | Some d \<Rightarrow> ebind (sel_qubit d qubit_id) (\<lambda>s. Inr (Some s)))"

text \<open>
  A name mapping of the grid, \<^verbatim>\<open>{"qubit": "q1"}\<close>, as its items in order;
  \<^verbatim>\<open>list(name_dict.values())[0]\<close> raises on an empty mapping.
\<close>

type_synonym name_dict = "(string \<times> string) list"

definition first_value :: "name_dict \<Rightarrow> py_error + string" where
  "first_value nd = (case map snd nd of [] \<Rightarrow> Inl IndexError | q # _ \<Rightarrow> Inr q)"

definition qubit_title :: "string \<Rightarrow> string" where
  "qubit_title qubit_id = ''Qubit '' @ qubit_id"

section \<open>The interactive figure\<close>

text \<open>
  The Plotly figure is the record of what the builder hands to the backend: the
  subplot grid asked of \<^verbatim>\<open>make_subplots\<close>, the traces added with their row and column,
  the axis-title updates and the final layout update, each recorded with its arguments.
\<close>

record 'v trace_props =
  tp_name :: string
  hovertemplate :: "string option"
  customdata :: "'v list option"
  legendgroup :: string
  showlegend :: bool

datatype 'v go_trace =
    GoHeatmap 'v 'v 'v "'v trace_props" py_dict
  | GoScatter 'v 'v "string option" py_dict "'v trace_props"

fun props_of :: "'v go_trace \<Rightarrow> 'v trace_props" where
  "props_of (GoHeatmap x y z props kw) = props"
| "props_of (GoScatter x y m line props) = props"

record subplots_spec =
  rows :: int
  cols :: int
  subplot_titles :: "string list"
  horizontal_spacing :: rat
  vertical_spacing :: rat

record figure_layout =
  title_text :: string
  layout_legend :: py_dict
  height :: int
  width :: int

record 'v plotly_figure =
  subplots :: "subplots_spec option"
  fig_data :: "(int \<times> int \<times> 'v go_trace) list"
  xaxes_titles :: "(int \<times> int \<times> string) list"
  yaxes_titles :: "(int \<times> int \<times> string) list"
  fig_layout :: "figure_layout option"

definition go_Figure :: "'v plotly_figure" where
  "go_Figure = \<lparr>subplots = None, fig_data = [], xaxes_titles = [], yaxes_titles = [],
     fig_layout = None\<rparr>"

text \<open>
  What the libraries behind the builder decide is given to it: \<open>array_shape\<close> is the
  shape of an array (\<^verbatim>\<open>np.stack\<close> wants equal shapes), and \<open>trace_accepted\<close> says
  whether \<^verbatim>\<open>go.Scatter\<close> or \<^verbatim>\<open>go.Heatmap\<close> accepts the arguments of a primitive; they
  raise ValueError for a mode, a style key or a value they do not know.
\<close>

record 'v plotly_lib =
  array_shape :: "'v \<Rightarrow> nat list"
  trace_accepted :: "'v go_trace \<Rightarrow> bool"

text \<open>\<^verbatim>\<open>np.stack(arrays, axis=-1)\<close> raises ValueError for no array and for arrays of
  different shapes; the stacked fields are kept as the list of their arrays, in the
  order listed.\<close>

definition np_stack :: "('v \<Rightarrow> nat list) \<Rightarrow> 'v list \<Rightarrow> py_error + 'v list" where
  "np_stack shape vs =
     (case vs of
        [] \<Rightarrow> Inl ValueError
      | v # _ \<Rightarrow> if list_all (\<lambda>w. shape w = shape v) vs then Inr vs else Inl ValueError)"

text \<open>
  \<^verbatim>\<open>make_subplots\<close> raises ValueError unless it is asked for at least one row and one
  column, and unless the spacing fits between them: a spacing \<open>s\<close> between \<open>n > 1\<close>
  rows or columns must not exceed \<open>1 / (n - 1)\<close>. At the builder's spacings, 0.1 across
  and 0.2 down, that is at most 11 columns and 6 rows.
\<close>

definition spacing_fits :: "int \<Rightarrow> rat \<Rightarrow> bool" where
  "spacing_fits n s = (n \<le> 1 \<or> s \<le> 1 / of_int (n - 1))"

definition make_subplots :: "int \<Rightarrow> int \<Rightarrow> string list \<Rightarrow> py_error + 'v plotly_figure" where
  "make_subplots r c titles =
     (if 0 < r \<and> 0 < c \<and> spacing_fits c (1 / 10) \<and> spacing_fits r (2 / 10)
      then Inr \<lparr>subplots = Some \<lparr>rows = r, cols = c, subplot_titles = titles,
                   horizontal_spacing = 1 / 10, vertical_spacing = 2 / 10\<rparr>,
                fig_data = [], xaxes_titles = [], yaxes_titles = [], fig_layout = None\<rparr>
      else Inl ValueError)"

definition add_trace :: "'v plotly_figure \<Rightarrow> 'v go_trace \<Rightarrow> int \<Rightarrow> int \<Rightarrow> 'v plotly_figure" where
  "add_trace fig tr row col = fig\<lparr>fig_data := fig_data fig @ [(row, col, tr)]\<rparr>"

definition update_xaxes :: "'v plotly_figure \<Rightarrow> string \<Rightarrow> int \<Rightarrow> int \<Rightarrow> 'v plotly_figure" where
  "update_xaxes fig t row col = fig\<lparr>xaxes_titles := xaxes_titles fig @ [(row, col, t)]\<rparr>"

definition update_yaxes :: "'v plotly_figure \<Rightarrow> string \<Rightarrow> int \<Rightarrow> int \<Rightarrow> 'v plotly_figure" where
  "update_yaxes fig t row col = fig\<lparr>yaxes_titles := yaxes_titles fig @ [(row, col, t)]\<rparr>"

definition update_layout :: "'v plotly_figure \<Rightarrow> figure_layout \<Rightarrow> 'v plotly_figure" where
  "update_layout fig l = fig\<lparr>fig_layout := Some l\<rparr>"

text \<open>
  The grid layout provider \<^verbatim>\<open>PlotlyQubitGrid\<close> lives in
  \<^verbatim>\<open>qualibration_libs.plotting.grids\<close>, outside this module. The builder below takes
  the constructor as its first argument; a grid value carries what the builder reads
  of it.
\<close>

record plotly_qubit_grid =
  n_rows :: int
  n_cols :: int
  name_dicts :: "name_dict list"

text \<open>
  Modelled from the spec: the iteration helper \<^verbatim>\<open>plotly_grid_iter\<close> of the same missing
  module. The grid exposes "a list of per-panel name-mappings in row-major order" and
  "an iteration helper yielding (index, name-mapping) pairs in the same row-major order
  used for subplot placement": the panels in order, each with its position.
\<close>

definition plotly_grid_iter :: "plotly_qubit_grid \<Rightarrow> (int \<times> name_dict) list" where
  "plotly_grid_iter grid = map (\<lambda>p. (int (fst p), snd p)) (enumerate 0 (name_dicts grid))"

subsection \<open>One trace in one cell\<close>

text \<open>\<^verbatim>\<open>trace_config in config.fit_traces\<close>: list membership by \<^verbatim>\<open>==\<close>, which for the
  configuration models compares the field values.\<close>

definition is_fit_trace :: "plot_config \<Rightarrow> trace_config \<Rightarrow> bool" where
  "is_fit_trace config trace_config = (trace_config \<in> set (fit_traces config))"

definition ds_source :: "plot_config \<Rightarrow> 'v xr_slice \<Rightarrow> 'v xr_slice option \<Rightarrow> trace_config
    \<Rightarrow> 'v xr_slice option" where
  "ds_source config ds_qubit_raw ds_qubit_fit trace_config =
     (if is_fit_trace config trace_config then ds_qubit_fit else Some ds_qubit_raw)"

text \<open>\<^verbatim>\<open>if trace_config.z_source:\<close> holds for a string that is neither None nor empty.\<close>

definition required_sources :: "trace_config \<Rightarrow> string list" where
  "required_sources trace_config =
     [x_source trace_config, y_source trace_config] @
     (case z_source trace_config of None \<Rightarrow> [] | Some z \<Rightarrow> if z = [] then [] else [z])"

text \<open>\<^verbatim>\<open>np.stack([ds_source[src].values for src in ...], axis=-1)\<close>, or None for no
  custom data source.\<close>

definition custom_data :: "'v plotly_lib \<Rightarrow> 'v xr_slice \<Rightarrow> trace_config
    \<Rightarrow> py_error + 'v list option" where
  "custom_data lib src trace_config =
     (if custom_data_sources trace_config = [] then Inr None
      else ebind (map_err (ds_getitem src) (custom_data_sources trace_config)) (\<lambda>vs.
           ebind (np_stack (array_shape lib) vs) (\<lambda>stacked. Inr (Some stacked))))"

text \<open>The keywords that the heatmap call passes itself; a style key among them is a
  repeated keyword argument.\<close>

definition heatmap_keywords :: "string list" where
  "heatmap_keywords = [''x'', ''y'', ''z'', ''name'', ''hovertemplate'', ''customdata'',
     ''legendgroup'', ''showlegend'']"

definition getitem_opt :: "'v xr_slice \<Rightarrow> string option \<Rightarrow> py_error + 'v" where
  "getitem_opt src key = (case key of None \<Rightarrow> Inl KeyError | Some k \<Rightarrow> ds_getitem src k)"

text \<open>The constructor of a primitive, \<^verbatim>\<open>go.Scatter(...)\<close> or \<^verbatim>\<open>go.Heatmap(...)\<close>.\<close>

definition go_construct :: "'v plotly_lib \<Rightarrow> 'v go_trace \<Rightarrow> py_error + 'v go_trace" where
  "go_construct lib tr = (if trace_accepted lib tr then Inr tr else Inl ValueError)"

definition build_trace :: "'v plotly_lib \<Rightarrow> trace_config \<Rightarrow> 'v xr_slice \<Rightarrow> 'v trace_props
    \<Rightarrow> py_error + 'v go_trace" where
  "build_trace lib trace_config src props =
     (if plot_type trace_config = Heatmap then
        ebind (ds_getitem src (x_source trace_config)) (\<lambda>x.
        ebind (ds_getitem src (y_source trace_config)) (\<lambda>y.
        ebind (getitem_opt src (z_source trace_config)) (\<lambda>z.
          if list_ex (\<lambda>k. fmlookup (style trace_config) k \<noteq> None) heatmap_keywords then Inl TypeError
          else go_construct lib (GoHeatmap x y z props (style trace_config)))))
      else
        ebind (ds_getitem src (x_source trace_config)) (\<lambda>x.
        ebind (ds_getitem src (y_source trace_config)) (\<lambda>y.
          go_construct lib (GoScatter x y (mode trace_config) (style trace_config) props))))"

text \<open>The body of the loop over \<^verbatim>\<open>config.traces + config.fit_traces\<close>, up to the
  primitive it builds: \<open>None\<close> is a \<^verbatim>\<open>continue\<close>.\<close>

definition render_trace :: "'v plotly_lib \<Rightarrow> plot_config \<Rightarrow> int \<Rightarrow> 'v xr_slice
    \<Rightarrow> 'v xr_slice option \<Rightarrow> trace_config \<Rightarrow> py_error + 'v go_trace option" where
  "render_trace lib config i ds_qubit_raw ds_qubit_fit trace_config =
     (if \<not> visible trace_config then Inr None
      else case ds_source config ds_qubit_raw ds_qubit_fit trace_config of
        None \<Rightarrow> Inr None
      | Some src \<Rightarrow>
          if \<not> list_all (ds_contains src) (required_sources trace_config) then Inr None
          else
            ebind (custom_data lib src trace_config) (\<lambda>cd.
            ebind (build_trace lib trace_config src
                     \<lparr>tp_name = name trace_config,
                      hovertemplate = hover_template trace_config,
                      customdata = cd,
                      legendgroup = name trace_config,
                      showlegend = (i = 0)\<rparr>)
              (\<lambda>tr. Inr (Some tr))))"

fun plotly_traces_loop :: "'v plotly_lib \<Rightarrow> plot_config \<Rightarrow> int \<Rightarrow> 'v xr_slice
    \<Rightarrow> 'v xr_slice option \<Rightarrow> int \<Rightarrow> int
    \<Rightarrow> trace_config list \<Rightarrow> 'v plotly_figure \<Rightarrow> py_error + 'v plotly_figure" where
  "plotly_traces_loop lib config i ds_qubit_raw ds_qubit_fit row col [] fig = Inr fig"
| "plotly_traces_loop lib config i ds_qubit_raw ds_qubit_fit row col (trace_config # rest) fig =
     ebind (render_trace lib config i ds_qubit_raw ds_qubit_fit trace_config) (\<lambda>r.
       plotly_traces_loop lib config i ds_qubit_raw ds_qubit_fit row col rest
         (case r of None \<Rightarrow> fig | Some tr \<Rightarrow> add_trace fig tr row col))"

subsection \<open>One cell, all cells, the figure\<close>

definition plotly_cell :: "'v plotly_lib \<Rightarrow> plot_config \<Rightarrow> plotly_qubit_grid \<Rightarrow> 'v dataset
    \<Rightarrow> 'v dataset option
    \<Rightarrow> int \<times> name_dict \<Rightarrow> 'v plotly_figure \<Rightarrow> py_error + 'v plotly_figure" where
  "plotly_cell lib config grid ds_raw ds_fit cell fig =
     (if n_cols grid = 0 then Inl ZeroDivisionError
      else
        let i = fst cell;
            row = i div n_cols grid + 1;
            col = i mod n_cols grid + 1
        in
        ebind (first_value (snd cell)) (\<lambda>qubit_id.
        ebind (sel_qubit ds_raw qubit_id) (\<lambda>ds_qubit_raw.
        ebind (sel_fit ds_fit qubit_id) (\<lambda>ds_qubit_fit.
        ebind (plotly_traces_loop lib config i ds_qubit_raw ds_qubit_fit row col
                 (traces config @ fit_traces config) fig) (\<lambda>fig1.
          Inr (update_yaxes
                 (update_xaxes fig1 (x_axis_title (layout config)) row col)
                 (y_axis_title (layout config)) row col))))))"

fun plotly_cells_loop :: "'v plotly_lib \<Rightarrow> plot_config \<Rightarrow> plotly_qubit_grid \<Rightarrow> 'v dataset
    \<Rightarrow> 'v dataset option
    \<Rightarrow> (int \<times> name_dict) list \<Rightarrow> 'v plotly_figure \<Rightarrow> py_error + 'v plotly_figure" where
  "plotly_cells_loop lib config grid ds_raw ds_fit [] fig = Inr fig"
| "plotly_cells_loop lib config grid ds_raw ds_fit (cell # cells) fig =
     ebind (plotly_cell lib config grid ds_raw ds_fit cell fig)
       (plotly_cells_loop lib config grid ds_raw ds_fit cells)"

definition create_plotly_figure ::
    "('v dataset \<Rightarrow> string list \<Rightarrow> py_error + plotly_qubit_grid) \<Rightarrow> 'v plotly_lib
      \<Rightarrow> 'v dataset \<Rightarrow> transmon list \<Rightarrow> plot_config list \<Rightarrow> 'v dataset option
      \<Rightarrow> py_error + 'v plotly_figure" where
  "create_plotly_figure PlotlyQubitGrid lib ds_raw qubits plot_configs ds_fit =
     (case plot_configs of
        [] \<Rightarrow> Inr go_Figure
      | config # _ \<Rightarrow>
          ebind (PlotlyQubitGrid ds_raw (map grid_location qubits)) (\<lambda>grid.
          ebind (map_err (\<lambda>nd. ebind (first_value nd) (\<lambda>q. Inr (qubit_title q)))
                   (name_dicts grid)) (\<lambda>titles.
          ebind (make_subplots (n_rows grid) (n_cols grid) titles) (\<lambda>fig0.
          ebind (plotly_cells_loop lib config grid ds_raw ds_fit (plotly_grid_iter grid) fig0)
            (\<lambda>fig.
            Inr (update_layout fig
                   \<lparr>title_text = title (layout config),
                    layout_legend = legend (layout config),
                    height = 350 * n_rows grid,
                    width = max 800 (350 * n_cols grid)\<rparr>))))))"

section \<open>The static figure\<close>

text \<open>
  A Matplotlib figure under construction: its title, its axes with the series drawn on
  each, whether the shared legend was drawn, and the rectangle given to
  \<^verbatim>\<open>tight_layout\<close>. An axes handle is the position of the axes in the figure; a handle
  that is not an axes of the figure leaves the figure as it is.
\<close>

record 'v mpl_line =
  xdata :: 'v
  ydata :: 'v
  marker :: "string option"
  linestyle :: string
  label :: string
  color :: "py_value option"

record 'v mpl_axes =
  lines :: "'v mpl_line list"
  xlabel :: string
  ylabel :: string
  axes_title :: string

record 'v mpl_figure =
  suptitle :: "string option"
  fig_axes :: "'v mpl_axes list"
  fig_legend :: bool
  tight_layout_rect :: "(rat \<times> rat \<times> rat \<times> rat) option"

definition blank_axes :: "'v mpl_axes" where
  "blank_axes = \<lparr>lines = [], xlabel = [], ylabel = [], axes_title = []\<rparr>"

text \<open>\<^verbatim>\<open>fig, _ = plt.subplots()\<close>\<close>

definition plt_subplots :: "'v mpl_figure" where
  "plt_subplots = \<lparr>suptitle = None, fig_axes = [blank_axes], fig_legend = False,
     tight_layout_rect = None\<rparr>"

definition on_axes :: "nat \<Rightarrow> ('v mpl_axes \<Rightarrow> 'v mpl_axes) \<Rightarrow> 'v mpl_figure \<Rightarrow> 'v mpl_figure" where
  "on_axes ax f fig = fig\<lparr>fig_axes := (fig_axes fig)[ax := f (fig_axes fig ! ax)]\<rparr>"

definition ax_plot :: "nat \<Rightarrow> 'v mpl_line \<Rightarrow> 'v mpl_figure \<Rightarrow> 'v mpl_figure" where
  "ax_plot ax l = on_axes ax (\<lambda>a. a\<lparr>lines := lines a @ [l]\<rparr>)"

definition set_xlabel :: "nat \<Rightarrow> string \<Rightarrow> 'v mpl_figure \<Rightarrow> 'v mpl_figure" where
  "set_xlabel ax t = on_axes ax (\<lambda>a. a\<lparr>xlabel := t\<rparr>)"

definition set_ylabel :: "nat \<Rightarrow> string \<Rightarrow> 'v mpl_figure \<Rightarrow> 'v mpl_figure" where
  "set_ylabel ax t = on_axes ax (\<lambda>a. a\<lparr>ylabel := t\<rparr>)"

definition set_title :: "nat \<Rightarrow> string \<Rightarrow> 'v mpl_figure \<Rightarrow> 'v mpl_figure" where
  "set_title ax t = on_axes ax (\<lambda>a. a\<lparr>axes_title := t\<rparr>)"

text \<open>
  The provider \<^verbatim>\<open>QubitGrid\<close> and its helper \<^verbatim>\<open>grid_iter\<close> are outside this module as
  well: a grid value carries its figure and the pairs of axes and name mapping that
  the helper yields.
\<close>

record 'v qubit_grid =
  grid_fig :: "'v mpl_figure"
  iter_axes :: "(nat \<times> name_dict) list"

definition grid_iter :: "'v qubit_grid \<Rightarrow> (nat \<times> name_dict) list" where
  "grid_iter grid = iter_axes grid"

text \<open>What Matplotlib decides is given to the builder: \<open>plot_accepted\<close> says whether
  \<^verbatim>\<open>ax.plot\<close> accepts a series; it raises ValueError for a colour or a line style it
  does not know, and for x and y values that do not fit together.\<close>

record 'v pyplot_lib =
  plot_accepted :: "'v mpl_line \<Rightarrow> bool"

text \<open>A loop whose body may raise, over a state.\<close>

fun fold_err :: "('a \<Rightarrow> 's \<Rightarrow> 'e + 's) \<Rightarrow> 'a list \<Rightarrow> 's \<Rightarrow> 'e + 's" where
  "fold_err f [] s = Inr s"
| "fold_err f (x # xs) s = ebind (f x s) (fold_err f xs)"

subsection \<open>The series of a raw trace and of a fit trace\<close>

text \<open>The arguments that the builder gives to \<^verbatim>\<open>ax.plot\<close> for a trace, or \<open>None\<close> when
  the trace is not drawn; the call itself is \<open>plot_series\<close> below. For a fit trace the
  line style is looked up first, and the lookup may raise.\<close>

definition raw_series :: "nat \<Rightarrow> 'v xr_slice \<Rightarrow> trace_config \<Rightarrow> py_error + 'v mpl_line option" where
  "raw_series i ds_qubit_raw trace_config =
     (if visible trace_config \<and>
         list_all (ds_contains ds_qubit_raw) [x_source trace_config, y_source trace_config]
      then
        ebind (ds_getitem ds_qubit_raw (x_source trace_config)) (\<lambda>x.
        ebind (ds_getitem ds_qubit_raw (y_source trace_config)) (\<lambda>y.
          Inr (Some \<lparr>xdata = x, ydata = y, marker = Some ''.'', linestyle = ''-'',
                 label = (if i = 0 then name trace_config else []),
                 color = None\<rparr>)))
      else Inr None)"

definition linestyle_map :: "(string \<times> string) list" where
  "linestyle_map = [(''solid'', ''-''), (''dot'', '':''), (''dash'', ''--''),
     (''longdash'', ''-.''), (''dashdot'', ''-.'')]"

text \<open>\<^verbatim>\<open>linestyle_map.get(trace_config.style.get("dash"), "--")\<close>: the inner \<^verbatim>\<open>get\<close> gives
  None for an absent key. The outer \<^verbatim>\<open>get\<close> hashes the value it is given and raises
  TypeError for a list or a dictionary; the keys of the map are strings, so no value
  other than a string is found in it.\<close>

definition dash_linestyle :: "py_dict \<Rightarrow> py_error + string" where
  "dash_linestyle st =
     (case fmlookup st ''dash'' of
        None \<Rightarrow> Inr ''--''
      | Some v \<Rightarrow>
          if hashable v
          then Inr (case v of
                      PyStr d \<Rightarrow> (case map_of linestyle_map d of Some l \<Rightarrow> l | None \<Rightarrow> ''--'')
                    | _ \<Rightarrow> ''--'')
          else Inl TypeError)"

text \<open>\<^verbatim>\<open>trace_config.style.get("color", "red")\<close>\<close>

definition style_color :: "py_dict \<Rightarrow> py_value" where
  "style_color st = (case fmlookup st ''color'' of None \<Rightarrow> PyStr ''red'' | Some c \<Rightarrow> c)"

definition fit_series :: "nat \<Rightarrow> 'v xr_slice \<Rightarrow> trace_config \<Rightarrow> py_error + 'v mpl_line option" where
  "fit_series i ds_qubit_fit trace_config =
     (if visible trace_config \<and>
         list_all (ds_contains ds_qubit_fit) [x_source trace_config, y_source trace_config]
      then
        ebind (dash_linestyle (style trace_config)) (\<lambda>linestyle.
        ebind (ds_getitem ds_qubit_fit (x_source trace_config)) (\<lambda>x.
        ebind (ds_getitem ds_qubit_fit (y_source trace_config)) (\<lambda>y.
          Inr (Some \<lparr>xdata = x, ydata = y, marker = None,
                 linestyle = linestyle,
                 label = (if i = 0 then name trace_config else []),
                 color = Some (style_color (style trace_config))\<rparr>))))
      else Inr None)"

text \<open>The series of a trace, if it has one, goes to \<^verbatim>\<open>ax.plot\<close>.\<close>

definition plot_series :: "'v pyplot_lib \<Rightarrow> nat \<Rightarrow> (trace_config \<Rightarrow> py_error + 'v mpl_line option)
    \<Rightarrow> trace_config \<Rightarrow> 'v mpl_figure \<Rightarrow> py_error + 'v mpl_figure" where
  "plot_series lib ax series trace_config fig =
     ebind (series trace_config)
       (\<lambda>r. case r of
               None \<Rightarrow> Inr fig
             | Some l \<Rightarrow> if plot_accepted lib l then Inr (ax_plot ax l fig) else Inl ValueError)"

subsection \<open>One axes, the figure\<close>

text \<open>\<^verbatim>\<open>if ds_qubit_fit:\<close> is false for None and for a dataset without data variables.\<close>

definition plot_fit_traces :: "'v pyplot_lib \<Rightarrow> plot_config \<Rightarrow> nat \<Rightarrow> nat \<Rightarrow> 'v xr_slice option
    \<Rightarrow> 'v mpl_figure \<Rightarrow> py_error + 'v mpl_figure" where
  "plot_fit_traces lib config i ax ds_qubit_fit fig =
     (case ds_qubit_fit of
        None \<Rightarrow> Inr fig
      | Some fit \<Rightarrow>
          if ds_bool fit
          then fold_err (plot_series lib ax (fit_series i fit)) (fit_traces config) fig
          else Inr fig)"

definition mpl_axes_step :: "'v pyplot_lib \<Rightarrow> plot_config \<Rightarrow> 'v dataset \<Rightarrow> 'v dataset option
    \<Rightarrow> nat \<times> nat \<times> name_dict \<Rightarrow> 'v mpl_figure \<Rightarrow> py_error + 'v mpl_figure" where
  "mpl_axes_step lib config ds_raw ds_fit item fig =
     (let i = fst item; ax = fst (snd item); name_dict = snd (snd item) in
      ebind (first_value name_dict) (\<lambda>qubit_id.
      ebind (sel_qubit ds_raw qubit_id) (\<lambda>ds_qubit_raw.
      ebind (sel_fit ds_fit qubit_id) (\<lambda>ds_qubit_fit.
      ebind (fold_err (plot_series lib ax (raw_series i ds_qubit_raw)) (traces config) fig)
        (\<lambda>fig1.
      ebind (plot_fit_traces lib config i ax ds_qubit_fit fig1) (\<lambda>fig2.
        Inr (set_title ax (qubit_title qubit_id)
              (set_ylabel ax (y_axis_title (layout config))
                (set_xlabel ax (x_axis_title (layout config)) fig2)))))))))"

definition create_matplotlib_figure ::
    "('v dataset \<Rightarrow> string list \<Rightarrow> py_error + 'v qubit_grid) \<Rightarrow> 'v pyplot_lib
      \<Rightarrow> 'v dataset \<Rightarrow> transmon list \<Rightarrow> plot_config list \<Rightarrow> 'v dataset option
      \<Rightarrow> py_error + 'v mpl_figure" where
  "create_matplotlib_figure QubitGrid lib ds_raw qubits plot_configs ds_fit =
     (case plot_configs of
        [] \<Rightarrow> Inr plt_subplots
      | config # _ \<Rightarrow>
          ebind (QubitGrid ds_raw (map grid_location qubits)) (\<lambda>grid.
          ebind (fold_err (mpl_axes_step lib config ds_raw ds_fit) (enumerate 0 (grid_iter grid))
                   ((grid_fig grid)\<lparr>suptitle := Some (title (layout config))\<rparr>)) (\<lambda>fig.
            Inr ((if list_ex (\<lambda>t. name t \<noteq> []) (traces config @ fit_traces config)
                  then fig\<lparr>fig_legend := True\<rparr> else fig)
                 \<lparr>tight_layout_rect := Some (0, 3 / 100, 1, 95 / 100)\<rparr>))))"

section \<open>Which traces are drawn\<close>

text \<open>
  The conditions under which the builders draw a trace, as the loops test them. The
  static builder draws a trace of either list when it is visible and its x and y fields
  are in the slice; it looks at the fit list only when the fit slice is there and has a
  data variable. The interactive builder draws a trace when it is visible, its source
  slice is there and every required field is in it.
\<close>

definition drawable :: "'v xr_slice \<Rightarrow> trace_config \<Rightarrow> bool" where
  "drawable src tc =
     (visible tc \<and> ds_contains src (x_source tc) \<and> ds_contains src (y_source tc))"

definition fit_drawn :: "plot_config \<Rightarrow> 'v xr_slice option \<Rightarrow> trace_config list" where
  "fit_drawn config ds_qubit_fit =
     (case ds_qubit_fit of
        None \<Rightarrow> []
      | Some fit \<Rightarrow> if ds_bool fit then filter (drawable fit) (fit_traces config) else [])"

definition drawn_in_cell :: "plot_config \<Rightarrow> 'v xr_slice \<Rightarrow> 'v xr_slice option \<Rightarrow> trace_config
    \<Rightarrow> bool" where
  "drawn_in_cell config raw fit tc =
     (visible tc \<and>
      (case ds_source config raw fit tc of
         None \<Rightarrow> False
       | Some src \<Rightarrow> list_all (ds_contains src) (required_sources tc)))"

section \<open>Example inputs\<close>

text \<open>
  One qubit \<^verbatim>\<open>q0\<close> at grid location \<^verbatim>\<open>0,0\<close>: the layout is a single cell. Arrays are
  lists of numbers, of the shape given by their length, and the libraries accept every
  primitive and every series. The raw and the fit dataset hold the same variable names,
  with the measured and the fitted amplitude.
\<close>

definition list_lib :: "rat list plotly_lib" where
  "list_lib = \<lparr>array_shape = (\<lambda>v. [length v]), trace_accepted = (\<lambda>tr. True)\<rparr>"

definition list_pyplot :: "rat list pyplot_lib" where
  "list_pyplot = \<lparr>plot_accepted = (\<lambda>l. True)\<rparr>"

definition q0_dict :: name_dict where
  "q0_dict = [(''qubit'', ''q0'')]"

definition q1_dict :: name_dict where
  "q1_dict = [(''qubit'', ''q1'')]"

definition one_cell_grid :: "rat list dataset \<Rightarrow> string list \<Rightarrow> py_error + plotly_qubit_grid" where
  "one_cell_grid ds locs = Inr \<lparr>n_rows = 1, n_cols = 1, name_dicts = [q0_dict]\<rparr>"

definition one_axes_grid :: "rat list dataset \<Rightarrow> string list \<Rightarrow> py_error + rat list qubit_grid" where
  "one_axes_grid ds locs = Inr \<lparr>grid_fig = plt_subplots, iter_axes = [(0, q0_dict)]\<rparr>"

definition raw_q0 :: "rat list xr_slice" where
  "raw_q0 = \<lparr>variables = [(''detuning'', [-1, 0, 1]), (''amplitude'', [3, 1, 3])],
     coord_names = [''detuning'']\<rparr>"

definition fit_q0 :: "rat list xr_slice" where
  "fit_q0 = \<lparr>variables = [(''detuning'', [-1, 0, 1]), (''amplitude'', [2, 1, 2])],
     coord_names = [''detuning'']\<rparr>"

definition ds_raw_ex :: "rat list dataset" where
  "ds_raw_ex = [''q0'' \<mapsto> raw_q0]"

definition ds_fit_ex :: "rat list dataset" where
  "ds_fit_ex = [''q0'' \<mapsto> fit_q0]"

definition qubits_ex :: "transmon list" where
  "qubits_ex = [\<lparr>grid_location = ''0,0''\<rparr>]"

definition layout_ex :: layout_config where
  "layout_ex = \<lparr>title = ''Resonator spectroscopy'', x_axis_title = ''Detuning'',
     y_axis_title = ''Amplitude'', legend = fmempty\<rparr>"

definition amplitude_trace :: trace_config where
  "amplitude_trace = \<lparr>plot_type = Scatter, x_source = ''detuning'', y_source = ''amplitude'',
     z_source = None, name = ''amplitude'', mode = Some ''lines+markers'', style = fmempty,
     hover_template = None, custom_data_sources = [], visible = True\<rparr>"

definition phase_trace :: trace_config where
  "phase_trace = amplitude_trace\<lparr>z_source := Some ''phase''\<rparr>"

definition hover_trace :: trace_config where
  "hover_trace = amplitude_trace\<lparr>hover_template := Some ''%{customdata[0]}'',
     custom_data_sources := [''phase'']\<rparr>"

definition detuning_trace :: trace_config where
  "detuning_trace = amplitude_trace\<lparr>y_source := ''detuning'', name := ''fit'',
     style := fmap_of_list [(''dash'', PyStr ''dot''), (''color'', PyStr ''blue'')]\<rparr>"

text \<open>A trace without a display name.\<close>

definition unnamed_trace :: trace_config where
  "unnamed_trace = amplitude_trace\<lparr>name := []\<rparr>"

text \<open>A fit slice that holds the sweep coordinate and no data variable.\<close>

definition coords_only_q0 :: "rat list xr_slice" where
  "coords_only_q0 = \<lparr>variables = [(''detuning'', [-1, 0, 1])], coord_names = [''detuning'']\<rparr>"

definition raw_only_config :: plot_config where
  "raw_only_config = \<lparr>layout = layout_ex, traces = [amplitude_trace], fit_traces = []\<rparr>"

text \<open>The fit trace reads the variables of the same names from the fit dataset, under
  the same display name: the two lists hold equal trace configurations.\<close>

definition both_lists_config :: plot_config where
  "both_lists_config =
     \<lparr>layout = layout_ex, traces = [amplitude_trace], fit_traces = [amplitude_trace]\<rparr>"

definition phase_config :: plot_config where
  "phase_config = \<lparr>layout = layout_ex, traces = [phase_trace], fit_traces = []\<rparr>"

definition hover_config :: plot_config where
  "hover_config = \<lparr>layout = layout_ex, traces = [hover_trace], fit_traces = []\<rparr>"

definition fit_config :: plot_config where
  "fit_config = \<lparr>layout = layout_ex, traces = [amplitude_trace], fit_traces = [detuning_trace]\<rparr>"

text \<open>Two fit traces: one with a dash style and a colour, one with neither.\<close>

definition two_fits_config :: plot_config where
  "two_fits_config = \<lparr>layout = layout_ex, traces = [amplitude_trace],
     fit_traces = [detuning_trace, amplitude_trace]\<rparr>"

definition unnamed_config :: plot_config where
  "unnamed_config = \<lparr>layout = layout_ex, traces = [unnamed_trace], fit_traces = []\<rparr>"

text \<open>Two qubits side by side, with the same data.\<close>

definition two_cell_grid :: "rat list dataset \<Rightarrow> string list \<Rightarrow> py_error + plotly_qubit_grid" where
  "two_cell_grid ds locs = Inr \<lparr>n_rows = 1, n_cols = 2, name_dicts = [q0_dict, q1_dict]\<rparr>"

definition two_axes_grid :: "rat list dataset \<Rightarrow> string list \<Rightarrow> py_error + rat list qubit_grid" where
  "two_axes_grid ds locs =
     Inr \<lparr>grid_fig = \<lparr>suptitle = None, fig_axes = [blank_axes, blank_axes], fig_legend = False,
            tight_layout_rect = None\<rparr>,
          iter_axes = [(0, q0_dict), (1, q1_dict)]\<rparr>"

definition ds_raw_two :: "rat list dataset" where
  "ds_raw_two = [''q0'' \<mapsto> raw_q0, ''q1'' \<mapsto> raw_q0]"

definition ds_fit_two :: "rat list dataset" where
  "ds_fit_two = [''q0'' \<mapsto> fit_q0, ''q1'' \<mapsto> fit_q0]"

definition qubits_two :: "transmon list" where
  "qubits_two = [\<lparr>grid_location = ''0,0''\<rparr>, \<lparr>grid_location = ''1,0''\<rparr>]"

text \<open>Six qubits on a grid of two rows and three columns.\<close>

definition six_names :: "string list" where
  "six_names = [''q0'', ''q1'', ''q2'', ''q3'', ''q4'', ''q5'']"

definition grid_2x3 :: "rat list dataset \<Rightarrow> string list \<Rightarrow> py_error + plotly_qubit_grid" where
  "grid_2x3 ds locs =
     Inr \<lparr>n_rows = 2, n_cols = 3, name_dicts = map (\<lambda>q. [(''qubit'', q)]) six_names\<rparr>"

definition ds_raw_six :: "rat list dataset" where
  "ds_raw_six = (\<lambda>q. if q \<in> set six_names then Some raw_q0 else None)"

definition qubits_six :: "transmon list" where
  "qubits_six = map (\<lambda>l. \<lparr>grid_location = l\<rparr>)
     [''0,1'', ''1,1'', ''2,1'', ''0,0'', ''1,0'', ''2,0'']"

section \<open>Basic facts\<close>

lemma ebind_simps:
  "ebind (Inl e) f = Inl e"
  "ebind (Inr v) f = f v"
  by (simp_all add: ebind_def)

lemma ebind_Inr:
  "ebind m f = Inr y \<Longrightarrow> \<exists>x. m = Inr x \<and> f x = Inr y"
  by (cases m) (simp_all add: ebind_def)

lemmas ex_defs = list_lib_def list_pyplot_def one_cell_grid_def one_axes_grid_def q0_dict_def
  q1_dict_def raw_q0_def fit_q0_def
  ds_raw_ex_def ds_fit_ex_def qubits_ex_def layout_ex_def amplitude_trace_def phase_trace_def
  hover_trace_def detuning_trace_def unnamed_trace_def coords_only_q0_def raw_only_config_def
  both_lists_config_def phase_config_def hover_config_def fit_config_def unnamed_config_def
  two_fits_config_def
  two_cell_grid_def two_axes_grid_def ds_raw_two_def ds_fit_two_def qubits_two_def
  six_names_def grid_2x3_def ds_raw_six_def qubits_six_def

lemmas plotly_defs = create_plotly_figure_def ebind_simps first_value_def
  plotly_grid_iter_def plotly_cell_def sel_qubit_def sel_fit_def
  render_trace_def ds_source_def is_fit_trace_def required_sources_def
  ds_contains_def custom_data_def np_stack_def build_trace_def go_construct_def
  ds_getitem_def getitem_opt_def
  add_trace_def update_xaxes_def update_yaxes_def update_layout_def make_subplots_def
  spacing_fits_def qubit_title_def heatmap_keywords_def

lemmas mpl_defs = create_matplotlib_figure_def ebind_simps first_value_def grid_iter_def
  mpl_axes_step_def sel_qubit_def sel_fit_def plot_fit_traces_def plot_series_def
  raw_series_def fit_series_def dash_linestyle_def style_color_def linestyle_map_def
  ds_contains_def ds_getitem_def ds_bool_def data_vars_def on_axes_def ax_plot_def
  set_xlabel_def set_ylabel_def set_title_def plt_subplots_def blank_axes_def qubit_title_def

subsection \<open>Field lookup\<close>

lemma ds_getitem_contains:
  "ds_contains ds k \<Longrightarrow> \<exists>v. ds_getitem ds k = Inr v"
  by (auto simp: ds_contains_def ds_getitem_def)

lemma ds_getitem_absent:
  "\<not> ds_contains ds k \<Longrightarrow> ds_getitem ds k = Inl KeyError"
  by (simp add: ds_contains_def ds_getitem_def)

lemma map_err_getitem_absent:
  "c \<in> set ks \<Longrightarrow> \<not> ds_contains ds c \<Longrightarrow> map_err (ds_getitem ds) ks = Inl KeyError"
proof (induction ks)
  case Nil
  then show ?case by simp
next
  case (Cons k ks)
  show ?case
  proof (cases "ds_contains ds k")
    case False
    then show ?thesis by (simp add: ds_getitem_absent ebind_simps)
  next
    case True
    with Cons.prems have "c \<in> set ks" by auto
    with Cons have tl: "map_err (ds_getitem ds) ks = Inl KeyError" by simp
    from True obtain v where "ds_getitem ds k = Inr v"
      using ds_getitem_contains by blast
    with tl show ?thesis by (simp add: ebind_simps)
  qed
qed

lemma data_vars_empty:
  "(data_vars s = []) = (fst ` set (variables s) \<subseteq> set (coord_names s))"
  by (auto simp: data_vars_def filter_empty_conv)

subsection \<open>What one trace does in the interactive builder\<close>

text \<open>The source slice of a trace is chosen by comparing the trace with the members of
  the fit list.\<close>

lemma ds_source_by_value:
  "ds_source config raw fit tc = (if tc \<in> set (fit_traces config) then fit else Some raw)"
  by (simp add: ds_source_def is_fit_trace_def)

lemma absent_required_source_skips:
  assumes "ds_source config raw fit tc = Some src"
    and "r \<in> set (required_sources tc)" and "\<not> ds_contains src r"
  shows "render_trace lib config i raw fit tc = Inr None"
  using assms by (auto simp: render_trace_def list_all_iff)

lemma absent_custom_source_raises:
  assumes "visible tc" and "ds_source config raw fit tc = Some src"
    and "list_all (ds_contains src) (required_sources tc)"
    and "c \<in> set (custom_data_sources tc)" and "\<not> ds_contains src c"
  shows "render_trace lib config i raw fit tc = Inl KeyError"
proof -
  from assms(4) have "custom_data_sources tc \<noteq> []" by auto
  with assms(4,5) have "custom_data lib src tc = Inl KeyError"
    by (simp add: custom_data_def map_err_getitem_absent ebind_simps)
  with assms(1-3) show ?thesis
    by (simp add: render_trace_def ebind_simps)
qed

text \<open>A trace is skipped exactly when it is not drawn in the cell; otherwise the builder
  goes on to the primitive, which it builds or which raises.\<close>

lemma render_trace_skips:
  "(render_trace lib config i raw fit tc = Inr None) = (\<not> drawn_in_cell config raw fit tc)"
  by (auto simp: render_trace_def drawn_in_cell_def ebind_def split: option.splits sum.splits)

lemma render_trace_props:
  "render_trace lib config i raw fit tc = Inr (Some tr) \<Longrightarrow>
     \<exists>cd. props_of tr = \<lparr>tp_name = name tc, hovertemplate = hover_template tc, customdata = cd,
        legendgroup = name tc, showlegend = (i = 0)\<rparr>"
  by (auto simp: render_trace_def build_trace_def go_construct_def ebind_def
       split: if_splits option.splits sum.splits)

subsection \<open>Without a fit dataset\<close>

lemma fit_list_trace_without_fit_dataset:
  "tc \<in> set (fit_traces config) \<Longrightarrow> render_trace lib config i raw None tc = Inr None"
  by (simp add: render_trace_def ds_source_def is_fit_trace_def)

lemma plotly_traces_loop_append:
  "plotly_traces_loop lib config i raw fit row col (xs @ ys) fig =
     ebind (plotly_traces_loop lib config i raw fit row col xs fig)
       (plotly_traces_loop lib config i raw fit row col ys)"
proof (induction xs arbitrary: fig)
  case Nil
  then show ?case by (simp add: ebind_simps)
next
  case (Cons x xs)
  then show ?case
    by (cases "render_trace lib config i raw fit x") (simp_all add: ebind_simps)
qed

lemma plotly_fit_traces_skipped:
  "set tcs \<subseteq> set (fit_traces config) \<Longrightarrow>
     plotly_traces_loop lib config i raw None row col tcs fig = Inr fig"
  by (induction tcs) (simp_all add: fit_list_trace_without_fit_dataset ebind_simps)

lemma render_trace_raw_only:
  "tc \<notin> set (fit_traces config) \<Longrightarrow>
     render_trace lib config i raw fit tc
       = render_trace lib (config\<lparr>fit_traces := []\<rparr>) i raw fit tc"
  by (simp add: render_trace_def ds_source_def is_fit_trace_def)

lemma plotly_raw_traces_loop:
  "set tcs \<inter> set (fit_traces config) = {} \<Longrightarrow>
     plotly_traces_loop lib config i raw fit row col tcs fig =
     plotly_traces_loop lib (config\<lparr>fit_traces := []\<rparr>) i raw fit row col tcs fig"
proof (induction tcs arbitrary: fig)
  case Nil
  then show ?case by simp
next
  case (Cons tc tcs)
  then have "tc \<notin> set (fit_traces config)" "set tcs \<inter> set (fit_traces config) = {}"
    by auto
  with Cons.IH show ?case
    by (simp add: render_trace_raw_only [of tc config])
qed

text \<open>When no raw trace equals a fit trace, a cell built without a fit dataset is the
  cell of the configuration without its fit traces.\<close>

lemma plotly_cell_without_fit_dataset:
  assumes "set (traces config) \<inter> set (fit_traces config) = {}"
  shows "plotly_cell lib config grid ds_raw None cell fig =
     plotly_cell lib (config\<lparr>fit_traces := []\<rparr>) grid ds_raw None cell fig"
proof -
  have key: "plotly_traces_loop lib config i raw None row col (traces config @ fit_traces config) fg =
        plotly_traces_loop lib (config\<lparr>fit_traces := []\<rparr>) i raw None row col (traces config) fg"
    for i raw row col fg
  proof (cases "plotly_traces_loop lib config i raw None row col (traces config) fg")
    case (Inl e)
    with assms show ?thesis
      by (simp add: plotly_traces_loop_append ebind_simps plotly_raw_traces_loop [symmetric])
  next
    case (Inr f)
    with assms show ?thesis
      by (simp add: plotly_traces_loop_append ebind_simps plotly_raw_traces_loop [symmetric]
          plotly_fit_traces_skipped)
  qed
  show ?thesis
    by (simp add: plotly_cell_def Let_def sel_fit_def ebind_simps key)
qed

lemma plotly_cells_loop_without_fit_dataset:
  assumes "set (traces config) \<inter> set (fit_traces config) = {}"
  shows "plotly_cells_loop lib config grid ds_raw None cells fig =
     plotly_cells_loop lib (config\<lparr>fit_traces := []\<rparr>) grid ds_raw None cells fig"
proof (induction cells arbitrary: fig)
  case Nil
  then show ?case by simp
next
  case (Cons cell cells)
  show ?case
  proof (cases "plotly_cell lib (config\<lparr>fit_traces := []\<rparr>) grid ds_raw None cell fig")
    case (Inl e)
    then show ?thesis
      by (simp add: plotly_cell_without_fit_dataset [OF assms] ebind_simps)
  next
    case (Inr f)
    then show ?thesis
      by (simp add: plotly_cell_without_fit_dataset [OF assms] ebind_simps Cons.IH)
  qed
qed

lemma plotly_figure_without_fit_dataset:
  assumes "set (traces config) \<inter> set (fit_traces config) = {}"
  shows "create_plotly_figure G lib ds_raw qubits (config # rest) None =
     create_plotly_figure G lib ds_raw qubits [config\<lparr>fit_traces := []\<rparr>] None"
  by (simp add: create_plotly_figure_def plotly_cells_loop_without_fit_dataset [OF assms])

text \<open>The static builder keeps its two lists apart: without a fit dataset an axes is
  drawn as for the configuration without its fit traces, whatever the lists hold.\<close>

lemma mpl_axes_step_without_fit_dataset:
  "mpl_axes_step lib config ds_raw None item fig =
     mpl_axes_step lib (config\<lparr>fit_traces := []\<rparr>) ds_raw None item fig"
  by (simp add: mpl_axes_step_def sel_fit_def plot_fit_traces_def ebind_simps)

lemma six_qubit_figure_is_returned:
  "\<exists>fig. create_plotly_figure grid_2x3 list_lib ds_raw_six qubits_six [raw_only_config] None
     = Inr fig"
  by (simp add: plotly_defs ex_defs enumerate_eq_zip)

subsection \<open>The traces of an interactive figure\<close>

lemma plotly_traces_loop_data:
  "plotly_traces_loop lib config i raw fit row col tcs fig = Inr fig' \<Longrightarrow>
     \<exists>trs. fig_data fig' = fig_data fig @ map (\<lambda>tr. (row, col, tr)) trs
       \<and> list_all2 (\<lambda>tr tc. render_trace lib config i raw fit tc = Inr (Some tr)) trs
           (filter (drawn_in_cell config raw fit) tcs)"
proof (induction tcs arbitrary: fig)
  case Nil
  then show ?case by simp
next
  case (Cons tc tcs)
  from Cons.prems obtain r where r: "render_trace lib config i raw fit tc = Inr r"
    and rest: "plotly_traces_loop lib config i raw fit row col tcs
        (case r of None \<Rightarrow> fig | Some tr \<Rightarrow> add_trace fig tr row col) = Inr fig'"
    by (auto dest: ebind_Inr)
  from Cons.IH [OF rest] obtain trs where
    d: "fig_data fig' = fig_data (case r of None \<Rightarrow> fig | Some tr \<Rightarrow> add_trace fig tr row col)
          @ map (\<lambda>tr. (row, col, tr)) trs"
    and l: "list_all2 (\<lambda>tr tc. render_trace lib config i raw fit tc = Inr (Some tr)) trs
           (filter (drawn_in_cell config raw fit) tcs)"
    by blast
  show ?case
  proof (cases r)
    case None
    with r have "\<not> drawn_in_cell config raw fit tc"
      using render_trace_skips [of lib config i raw fit tc] by simp
    with None d l show ?thesis by auto
  next
    case (Some tr)
    with r have dr: "drawn_in_cell config raw fit tc"
      using render_trace_skips [of lib config i raw fit tc] by auto
    from Some d have "fig_data fig' = fig_data fig @ map (\<lambda>tr. (row, col, tr)) (tr # trs)"
      by (simp add: add_trace_def)
    moreover from l r Some dr
    have "list_all2 (\<lambda>tr tc. render_trace lib config i raw fit tc = Inr (Some tr)) (tr # trs)
           (filter (drawn_in_cell config raw fit) (tc # tcs))"
      by simp
    ultimately show ?thesis by blast
  qed
qed

text \<open>What one cell adds to the figure.\<close>

lemma plotly_cell_data:
  assumes "plotly_cell lib config grid ds_raw ds_fit (i, nd) fig = Inr fig'"
  shows "\<exists>q raw fit trs. first_value nd = Inr q \<and> sel_qubit ds_raw q = Inr raw
     \<and> sel_fit ds_fit q = Inr fit
     \<and> fig_data fig' = fig_data fig
          @ map (\<lambda>tr. (i div n_cols grid + 1, i mod n_cols grid + 1, tr)) trs
     \<and> list_all2 (\<lambda>tr tc. render_trace lib config i raw fit tc = Inr (Some tr)) trs
           (filter (drawn_in_cell config raw fit) (traces config @ fit_traces config))"
proof -
  let ?row = "i div n_cols grid + 1"
  let ?col = "i mod n_cols grid + 1"
  from assms obtain q raw fit fig1 where
    q: "first_value nd = Inr q" "sel_qubit ds_raw q = Inr raw" "sel_fit ds_fit q = Inr fit"
    and loop: "plotly_traces_loop lib config i raw fit ?row ?col
        (traces config @ fit_traces config) fig = Inr fig1"
    and fig': "fig' = update_yaxes (update_xaxes fig1 (x_axis_title (layout config)) ?row ?col)
        (y_axis_title (layout config)) ?row ?col"
    by (auto simp: plotly_cell_def Let_def ebind_def split: sum.splits if_splits)
  from plotly_traces_loop_data [OF loop] obtain trs where
    "fig_data fig1 = fig_data fig @ map (\<lambda>tr. (?row, ?col, tr)) trs"
    "list_all2 (\<lambda>tr tc. render_trace lib config i raw fit tc = Inr (Some tr)) trs
           (filter (drawn_in_cell config raw fit) (traces config @ fit_traces config))"
    by blast
  with q fig' show ?thesis
    by (auto simp: update_xaxes_def update_yaxes_def)
qed

lemma plotly_cells_loop_data:
  "plotly_cells_loop lib config grid ds_raw ds_fit
      (map (\<lambda>p. (int (fst p), snd p)) (enumerate n nds)) fig = Inr fig' \<Longrightarrow>
   \<exists>cells. fig_data fig' = fig_data fig @ concat cells
     \<and> list_all2 (\<lambda>p trs. \<exists>q raw fit. first_value (snd p) = Inr q
            \<and> sel_qubit ds_raw q = Inr raw \<and> sel_fit ds_fit q = Inr fit
            \<and> list_all2 (\<lambda>e tc. fst e = int (fst p) div n_cols grid + 1
                   \<and> fst (snd e) = int (fst p) mod n_cols grid + 1
                   \<and> render_trace lib config (int (fst p)) raw fit tc = Inr (Some (snd (snd e))))
                 trs (filter (drawn_in_cell config raw fit) (traces config @ fit_traces config)))
          (enumerate n nds) cells"
proof (induction nds arbitrary: n fig)
  case Nil
  then show ?case by simp
next
  case (Cons nd nds)
  from Cons.prems obtain fig1 where
    cell: "plotly_cell lib config grid ds_raw ds_fit (int n, nd) fig = Inr fig1"
    and rest: "plotly_cells_loop lib config grid ds_raw ds_fit
      (map (\<lambda>p. (int (fst p), snd p)) (enumerate (Suc n) nds)) fig1 = Inr fig'"
    by (auto dest: ebind_Inr)
  from plotly_cell_data [OF cell] obtain q raw fit trs where
    q: "first_value nd = Inr q" "sel_qubit ds_raw q = Inr raw" "sel_fit ds_fit q = Inr fit"
    and d1: "fig_data fig1 = fig_data fig
          @ map (\<lambda>tr. (int n div n_cols grid + 1, int n mod n_cols grid + 1, tr)) trs"
    and l1: "list_all2 (\<lambda>tr tc. render_trace lib config (int n) raw fit tc = Inr (Some tr)) trs
           (filter (drawn_in_cell config raw fit) (traces config @ fit_traces config))"
    by blast
  let ?es = "map (\<lambda>tr. (int n div n_cols grid + 1, int n mod n_cols grid + 1, tr)) trs"
  from l1 have l1': "list_all2 (\<lambda>e tc. fst e = int n div n_cols grid + 1
                   \<and> fst (snd e) = int n mod n_cols grid + 1
                   \<and> render_trace lib config (int n) raw fit tc = Inr (Some (snd (snd e))))
                 ?es (filter (drawn_in_cell config raw fit) (traces config @ fit_traces config))"
    by (simp add: list_all2_map1)
  from Cons.IH [OF rest] obtain cells where
    d2: "fig_data fig' = fig_data fig1 @ concat cells"
    and l2: "list_all2 (\<lambda>p trs. \<exists>q raw fit. first_value (snd p) = Inr q
            \<and> sel_qubit ds_raw q = Inr raw \<and> sel_fit ds_fit q = Inr fit
            \<and> list_all2 (\<lambda>e tc. fst e = int (fst p) div n_cols grid + 1
                   \<and> fst (snd e) = int (fst p) mod n_cols grid + 1
                   \<and> render_trace lib config (int (fst p)) raw fit tc = Inr (Some (snd (snd e))))
                 trs (filter (drawn_in_cell config raw fit) (traces config @ fit_traces config)))
          (enumerate (Suc n) nds) cells"
    by blast
  from d1 d2 have "fig_data fig' = fig_data fig @ concat (?es # cells)" by simp
  moreover from q l1' l2
  have "list_all2 (\<lambda>p trs. \<exists>q raw fit. first_value (snd p) = Inr q
            \<and> sel_qubit ds_raw q = Inr raw \<and> sel_fit ds_fit q = Inr fit
            \<and> list_all2 (\<lambda>e tc. fst e = int (fst p) div n_cols grid + 1
                   \<and> fst (snd e) = int (fst p) mod n_cols grid + 1
                   \<and> render_trace lib config (int (fst p)) raw fit tc = Inr (Some (snd (snd e))))
                 trs (filter (drawn_in_cell config raw fit) (traces config @ fit_traces config)))
          (enumerate n (nd # nds)) (?es # cells)"
    by auto
  ultimately show ?case by blast
qed

text \<open>The traces of a returned figure, cell by cell.\<close>

lemma plotly_figure_data:
  assumes "create_plotly_figure G lib ds_raw qubits (config # rest) ds_fit = Inr fig"
  shows "\<exists>grid cells. G ds_raw (map grid_location qubits) = Inr grid
     \<and> length cells = length (name_dicts grid)
     \<and> fig_data fig = concat cells
     \<and> (\<forall>k<length cells. \<exists>q raw fit. first_value (name_dicts grid ! k) = Inr q
            \<and> sel_qubit ds_raw q = Inr raw \<and> sel_fit ds_fit q = Inr fit
            \<and> list_all2 (\<lambda>e tc. fst e = int k div n_cols grid + 1
                   \<and> fst (snd e) = int k mod n_cols grid + 1
                   \<and> render_trace lib config (int k) raw fit tc = Inr (Some (snd (snd e))))
                 (cells ! k)
                 (filter (drawn_in_cell config raw fit) (traces config @ fit_traces config)))"
proof -
  from assms obtain grid titles fig0 fig1 where
    g: "G ds_raw (map grid_location qubits) = Inr grid"
    and f0: "make_subplots (n_rows grid) (n_cols grid) titles = Inr fig0"
    and loop: "plotly_cells_loop lib config grid ds_raw ds_fit (plotly_grid_iter grid) fig0
       = Inr fig1"
    and fig: "fig = update_layout fig1 \<lparr>title_text = title (layout config),
                    layout_legend = legend (layout config),
                    height = 350 * n_rows grid,
                    width = max 800 (350 * n_cols grid)\<rparr>"
    by (auto simp: create_plotly_figure_def dest!: ebind_Inr)
  from f0 have e: "fig_data fig0 = []"
    by (auto simp: make_subplots_def split: if_splits)
  from plotly_cells_loop_data [OF loop [unfolded plotly_grid_iter_def]] e obtain cells where
    d: "fig_data fig1 = concat cells"
    and l: "list_all2 (\<lambda>p trs. \<exists>q raw fit. first_value (snd p) = Inr q
            \<and> sel_qubit ds_raw q = Inr raw \<and> sel_fit ds_fit q = Inr fit
            \<and> list_all2 (\<lambda>e tc. fst e = int (fst p) div n_cols grid + 1
                   \<and> fst (snd e) = int (fst p) mod n_cols grid + 1
                   \<and> render_trace lib config (int (fst p)) raw fit tc = Inr (Some (snd (snd e))))
                 trs (filter (drawn_in_cell config raw fit) (traces config @ fit_traces config)))
          (enumerate 0 (name_dicts grid)) cells"
    by auto
  from l have len: "length cells = length (name_dicts grid)"
    by (auto dest: list_all2_lengthD)
  from l len have "\<forall>k<length cells. \<exists>q raw fit. first_value (name_dicts grid ! k) = Inr q
            \<and> sel_qubit ds_raw q = Inr raw \<and> sel_fit ds_fit q = Inr fit
            \<and> list_all2 (\<lambda>e tc. fst e = int k div n_cols grid + 1
                   \<and> fst (snd e) = int k mod n_cols grid + 1
                   \<and> render_trace lib config (int k) raw fit tc = Inr (Some (snd (snd e))))
                 (cells ! k)
                 (filter (drawn_in_cell config raw fit) (traces config @ fit_traces config))"
    by (simp add: list_all2_conv_all_nth nth_enumerate_eq)
  with g len d fig show ?thesis
    by (auto simp: update_layout_def)
qed

subsection \<open>The series of a static figure\<close>

lemma on_axes_comp:
  "on_axes ax g (on_axes ax f fig) = on_axes ax (\<lambda>a. g (f a)) fig"
  by (cases "ax < length (fig_axes fig)") (simp_all add: on_axes_def list_update_beyond)

lemma on_axes_no_lines:
  "on_axes ax (\<lambda>a. a) fig = fig"
  by (simp add: on_axes_def)

lemma on_axes_length:
  "length (fig_axes (on_axes ax f fig)) = length (fig_axes fig)"
  by (simp add: on_axes_def)

lemma on_axes_nth:
  "h < length (fig_axes fig) \<Longrightarrow>
     fig_axes (on_axes ax f fig) ! h = (if h = ax then f (fig_axes fig ! h) else fig_axes fig ! h)"
  by (simp add: on_axes_def nth_list_update)

lemma raw_series_skips:
  "(raw_series j raw tc = Inr None) = (\<not> drawable raw tc)"
  by (auto simp: raw_series_def drawable_def ds_contains_def ds_getitem_def ebind_def
      split: option.splits)

lemma fit_series_skips:
  "(fit_series j fit tc = Inr None) = (\<not> drawable fit tc)"
  by (auto simp: fit_series_def drawable_def ds_contains_def ds_getitem_def ebind_def
      split: option.splits sum.splits)

lemma plot_series_fold:
  assumes skips: "\<And>tc. (series tc = Inr None) = (\<not> D tc)"
  shows "fold_err (plot_series lib ax series) tcs fig = Inr fig' \<Longrightarrow>
     \<exists>ls. fig' = on_axes ax (\<lambda>a. a\<lparr>lines := lines a @ ls\<rparr>) fig
       \<and> list_all2 (\<lambda>l tc. series tc = Inr (Some l)) ls (filter D tcs)"
proof (induction tcs arbitrary: fig)
  case Nil
  then show ?case by (simp add: on_axes_no_lines)
next
  case (Cons tc tcs)
  from Cons.prems obtain fig1 where
    one: "plot_series lib ax series tc fig = Inr fig1"
    and rest: "fold_err (plot_series lib ax series) tcs fig1 = Inr fig'"
    by (auto dest: ebind_Inr)
  from Cons.IH [OF rest] obtain ls where
    f: "fig' = on_axes ax (\<lambda>a. a\<lparr>lines := lines a @ ls\<rparr>) fig1"
    and l: "list_all2 (\<lambda>l tc. series tc = Inr (Some l)) ls (filter D tcs)"
    by blast
  from one obtain r where r: "series tc = Inr r"
    by (auto simp: plot_series_def dest: ebind_Inr)
  show ?case
  proof (cases r)
    case None
    with r skips have "\<not> D tc" by simp
    moreover from one r None have "fig1 = fig" by (simp add: plot_series_def ebind_simps)
    ultimately show ?thesis using f l by auto
  next
    case (Some l0)
    with r skips [of tc] have d: "D tc" by auto
    from one r Some have "fig1 = ax_plot ax l0 fig"
      by (auto simp: plot_series_def ebind_simps split: if_splits)
    with f have "fig' = on_axes ax (\<lambda>a. a\<lparr>lines := lines a @ l0 # ls\<rparr>) fig"
      by (simp add: ax_plot_def on_axes_comp)
    moreover from l r Some d
    have "list_all2 (\<lambda>l tc. series tc = Inr (Some l)) (l0 # ls) (filter D (tc # tcs))"
      by simp
    ultimately show ?thesis by blast
  qed
qed

lemma plot_fit_traces_lines:
  assumes "plot_fit_traces lib config i ax fit fig = Inr fig'"
  shows "\<exists>fs. fig' = on_axes ax (\<lambda>a. a\<lparr>lines := lines a @ fs\<rparr>) fig
       \<and> list_all2 (\<lambda>l tc. \<exists>f. fit = Some f \<and> fit_series i f tc = Inr (Some l)) fs
           (fit_drawn config fit)"
proof (cases fit)
  case None
  with assms show ?thesis
    by (simp add: plot_fit_traces_def fit_drawn_def on_axes_no_lines)
next
  case (Some f)
  show ?thesis
  proof (cases "ds_bool f")
    case False
    with Some assms show ?thesis
      by (simp add: plot_fit_traces_def fit_drawn_def on_axes_no_lines)
  next
    case True
    with Some assms
    have "fold_err (plot_series lib ax (fit_series i f)) (fit_traces config) fig = Inr fig'"
      by (simp add: plot_fit_traces_def)
    from plot_series_fold [of "fit_series i f" "drawable f", OF fit_series_skips this]
    show ?thesis using Some True by (simp add: fit_drawn_def)
  qed
qed

text \<open>What one axes step adds to the lines of the figure.\<close>

lemma mpl_axes_step_lines:
  assumes "mpl_axes_step lib config ds_raw ds_fit (i, ax, nd) fig = Inr fig'"
  shows "\<exists>q raw fit rs fs. first_value nd = Inr q \<and> sel_qubit ds_raw q = Inr raw
     \<and> sel_fit ds_fit q = Inr fit
     \<and> length (fig_axes fig') = length (fig_axes fig)
     \<and> (\<forall>h<length (fig_axes fig). lines (fig_axes fig' ! h)
            = lines (fig_axes fig ! h) @ (if ax = h then rs @ fs else []))
     \<and> list_all2 (\<lambda>l tc. raw_series i raw tc = Inr (Some l)) rs
           (filter (drawable raw) (traces config))
     \<and> list_all2 (\<lambda>l tc. \<exists>f. fit = Some f \<and> fit_series i f tc = Inr (Some l)) fs
           (fit_drawn config fit)"
proof -
  from assms obtain q raw fit fig1 fig2 where
    q: "first_value nd = Inr q" "sel_qubit ds_raw q = Inr raw" "sel_fit ds_fit q = Inr fit"
    and r: "fold_err (plot_series lib ax (raw_series i raw)) (traces config) fig = Inr fig1"
    and f: "plot_fit_traces lib config i ax fit fig1 = Inr fig2"
    and fig': "fig' = set_title ax (qubit_title q)
              (set_ylabel ax (y_axis_title (layout config))
                (set_xlabel ax (x_axis_title (layout config)) fig2))"
    by (auto simp: mpl_axes_step_def dest!: ebind_Inr)
  from plot_series_fold [of "raw_series i raw" "drawable raw", OF raw_series_skips r]
  obtain rs where
    f1: "fig1 = on_axes ax (\<lambda>a. a\<lparr>lines := lines a @ rs\<rparr>) fig"
    and lr: "list_all2 (\<lambda>l tc. raw_series i raw tc = Inr (Some l)) rs
           (filter (drawable raw) (traces config))"
    by blast
  from plot_fit_traces_lines [OF f] obtain fs where
    f2: "fig2 = on_axes ax (\<lambda>a. a\<lparr>lines := lines a @ fs\<rparr>) fig1"
    and lf: "list_all2 (\<lambda>l tc. \<exists>f. fit = Some f \<and> fit_series i f tc = Inr (Some l)) fs
           (fit_drawn config fit)"
    by blast
  from fig' f1 f2 have len: "length (fig_axes fig') = length (fig_axes fig)"
    by (simp add: set_title_def set_ylabel_def set_xlabel_def on_axes_length)
  from fig' f1 f2 have "\<forall>h<length (fig_axes fig). lines (fig_axes fig' ! h)
            = lines (fig_axes fig ! h) @ (if ax = h then rs @ fs else [])"
    by (simp add: set_title_def set_ylabel_def set_xlabel_def on_axes_comp on_axes_nth)
  with q len lr lf show ?thesis by blast
qed

lemma mpl_fold_lines:
  "fold_err (mpl_axes_step lib config ds_raw ds_fit) (enumerate n items) fig = Inr fig' \<Longrightarrow>
   \<exists>panels. length (fig_axes fig') = length (fig_axes fig)
     \<and> (\<forall>h<length (fig_axes fig). lines (fig_axes fig' ! h)
            = lines (fig_axes fig ! h)
              @ concat (map (\<lambda>p. fst (snd p) @ snd (snd p))
                  (filter (\<lambda>p. fst p = h) (zip (map fst items) panels))))
     \<and> list_all2 (\<lambda>p rf. \<exists>q raw fit. first_value (snd (snd p)) = Inr q
            \<and> sel_qubit ds_raw q = Inr raw \<and> sel_fit ds_fit q = Inr fit
            \<and> list_all2 (\<lambda>l tc. raw_series (fst p) raw tc = Inr (Some l)) (fst rf)
                 (filter (drawable raw) (traces config))
            \<and> list_all2 (\<lambda>l tc. \<exists>f. fit = Some f \<and> fit_series (fst p) f tc = Inr (Some l))
                 (snd rf) (fit_drawn config fit))
          (enumerate n items) panels"
proof (induction items arbitrary: n fig)
  case Nil
  then show ?case by simp
next
  case (Cons item items)
  obtain ax nd where item: "item = (ax, nd)" by (cases item)
  from Cons.prems item obtain fig1 where
    step: "mpl_axes_step lib config ds_raw ds_fit (n, ax, nd) fig = Inr fig1"
    and rest: "fold_err (mpl_axes_step lib config ds_raw ds_fit) (enumerate (Suc n) items) fig1
       = Inr fig'"
    by (auto dest: ebind_Inr)
  from mpl_axes_step_lines [OF step] obtain q raw fit rs fs where
    q: "first_value nd = Inr q" "sel_qubit ds_raw q = Inr raw" "sel_fit ds_fit q = Inr fit"
    and len1: "length (fig_axes fig1) = length (fig_axes fig)"
    and lines1: "\<forall>h<length (fig_axes fig). lines (fig_axes fig1 ! h)
            = lines (fig_axes fig ! h) @ (if ax = h then rs @ fs else [])"
    and lr: "list_all2 (\<lambda>l tc. raw_series n raw tc = Inr (Some l)) rs
           (filter (drawable raw) (traces config))"
    and lf: "list_all2 (\<lambda>l tc. \<exists>f. fit = Some f \<and> fit_series n f tc = Inr (Some l)) fs
           (fit_drawn config fit)"
    by blast
  from Cons.IH [OF rest] obtain panels where
    len2: "length (fig_axes fig') = length (fig_axes fig1)"
    and lines2: "\<forall>h<length (fig_axes fig1). lines (fig_axes fig' ! h)
            = lines (fig_axes fig1 ! h)
              @ concat (map (\<lambda>p. fst (snd p) @ snd (snd p))
                  (filter (\<lambda>p. fst p = h) (zip (map fst items) panels)))"
    and l2: "list_all2 (\<lambda>p rf. \<exists>q raw fit. first_value (snd (snd p)) = Inr q
            \<and> sel_qubit ds_raw q = Inr raw \<and> sel_fit ds_fit q = Inr fit
            \<and> list_all2 (\<lambda>l tc. raw_series (fst p) raw tc = Inr (Some l)) (fst rf)
                 (filter (drawable raw) (traces config))
            \<and> list_all2 (\<lambda>l tc. \<exists>f. fit = Some f \<and> fit_series (fst p) f tc = Inr (Some l))
                 (snd rf) (fit_drawn config fit))
          (enumerate (Suc n) items) panels"
    by blast
  let ?panels = "(rs, fs) # panels"
  from len1 len2 have "length (fig_axes fig') = length (fig_axes fig)" by simp
  moreover from len1 lines1 lines2 item
  have "\<forall>h<length (fig_axes fig). lines (fig_axes fig' ! h)
            = lines (fig_axes fig ! h)
              @ concat (map (\<lambda>p. fst (snd p) @ snd (snd p))
                  (filter (\<lambda>p. fst p = h) (zip (map fst (item # items)) ?panels)))"
    by simp
  moreover from q lr lf l2 item
  have "list_all2 (\<lambda>p rf. \<exists>q raw fit. first_value (snd (snd p)) = Inr q
            \<and> sel_qubit ds_raw q = Inr raw \<and> sel_fit ds_fit q = Inr fit
            \<and> list_all2 (\<lambda>l tc. raw_series (fst p) raw tc = Inr (Some l)) (fst rf)
                 (filter (drawable raw) (traces config))
            \<and> list_all2 (\<lambda>l tc. \<exists>f. fit = Some f \<and> fit_series (fst p) f tc = Inr (Some l))
                 (snd rf) (fit_drawn config fit))
          (enumerate n (item # items)) ?panels"
    by auto
  ultimately show ?case by blast
qed

text \<open>The series of a returned figure: on every axes, after what the grid's figure had
  there, the raw series and then the fit series of each panel drawn on that axes, in
  iteration order.\<close>

lemma matplotlib_figure_lines:
  assumes "create_matplotlib_figure Q lib ds_raw qubits (config # rest) ds_fit = Inr fig"
  shows "\<exists>grid panels. Q ds_raw (map grid_location qubits) = Inr grid
     \<and> length panels = length (grid_iter grid)
     \<and> length (fig_axes fig) = length (fig_axes (grid_fig grid))
     \<and> (\<forall>h<length (fig_axes (grid_fig grid)). lines (fig_axes fig ! h)
            = lines (fig_axes (grid_fig grid) ! h)
              @ concat (map (\<lambda>p. fst (snd p) @ snd (snd p))
                  (filter (\<lambda>p. fst p = h) (zip (map fst (grid_iter grid)) panels))))
     \<and> (\<forall>k<length panels. \<exists>q raw fit. first_value (snd (grid_iter grid ! k)) = Inr q
            \<and> sel_qubit ds_raw q = Inr raw \<and> sel_fit ds_fit q = Inr fit
            \<and> list_all2 (\<lambda>l tc. raw_series k raw tc = Inr (Some l)) (fst (panels ! k))
                 (filter (drawable raw) (traces config))
            \<and> list_all2 (\<lambda>l tc. \<exists>f. fit = Some f \<and> fit_series k f tc = Inr (Some l))
                 (snd (panels ! k)) (fit_drawn config fit))"
proof -
  from assms obtain grid fig1 where
    g: "Q ds_raw (map grid_location qubits) = Inr grid"
    and loop: "fold_err (mpl_axes_step lib config ds_raw ds_fit) (enumerate 0 (grid_iter grid))
                   ((grid_fig grid)\<lparr>suptitle := Some (title (layout config))\<rparr>) = Inr fig1"
    and fig: "fig_axes fig = fig_axes fig1"
    by (auto simp: create_matplotlib_figure_def dest!: ebind_Inr)
  from mpl_fold_lines [OF loop] obtain panels where
    len: "length (fig_axes fig1) = length (fig_axes (grid_fig grid))"
    and lines: "\<forall>h<length (fig_axes (grid_fig grid)). lines (fig_axes fig1 ! h)
            = lines (fig_axes (grid_fig grid) ! h)
              @ concat (map (\<lambda>p. fst (snd p) @ snd (snd p))
                  (filter (\<lambda>p. fst p = h) (zip (map fst (grid_iter grid)) panels)))"
    and l: "list_all2 (\<lambda>p rf. \<exists>q raw fit. first_value (snd (snd p)) = Inr q
            \<and> sel_qubit ds_raw q = Inr raw \<and> sel_fit ds_fit q = Inr fit
            \<and> list_all2 (\<lambda>l tc. raw_series (fst p) raw tc = Inr (Some l)) (fst rf)
                 (filter (drawable raw) (traces config))
            \<and> list_all2 (\<lambda>l tc. \<exists>f. fit = Some f \<and> fit_series (fst p) f tc = Inr (Some l))
                 (snd rf) (fit_drawn config fit))
          (enumerate 0 (grid_iter grid)) panels"
    by auto
  from l have plen: "length panels = length (grid_iter grid)"
    by (auto dest: list_all2_lengthD)
  from l plen have "\<forall>k<length panels. \<exists>q raw fit. first_value (snd (grid_iter grid ! k)) = Inr q
            \<and> sel_qubit ds_raw q = Inr raw \<and> sel_fit ds_fit q = Inr fit
            \<and> list_all2 (\<lambda>l tc. raw_series k raw tc = Inr (Some l)) (fst (panels ! k))
                 (filter (drawable raw) (traces config))
            \<and> list_all2 (\<lambda>l tc. \<exists>f. fit = Some f \<and> fit_series k f tc = Inr (Some l))
                 (snd (panels ! k)) (fit_drawn config fit)"
    by (simp add: list_all2_conv_all_nth nth_enumerate_eq)
  with g plen len lines fig show ?thesis
    by auto
qed

lemma raw_series_label:
  "raw_series j ds tc = Inr (Some l) \<Longrightarrow> label l = (if j = 0 then name tc else [])"
  by (auto simp: raw_series_def ebind_def split: if_splits sum.splits)

lemma fit_series_label:
  "fit_series j ds tc = Inr (Some l) \<Longrightarrow> label l = (if j = 0 then name tc else [])"
  by (auto simp: fit_series_def ebind_def split: if_splits sum.splits)

lemma raw_series_style:
  "raw_series j ds tc = Inr (Some l) \<Longrightarrow>
     marker l = Some ''.'' \<and> linestyle l = ''-'' \<and> color l = None"
  by (auto simp: raw_series_def ebind_def split: if_splits sum.splits)

lemma dash_linestyle_cases:
  "dash_linestyle st = Inr ls \<Longrightarrow>
     ls = (if fmlookup st ''dash'' = Some (PyStr ''solid'') then ''-''
           else if fmlookup st ''dash'' = Some (PyStr ''dot'') then '':''
           else if fmlookup st ''dash'' = Some (PyStr ''dash'') then ''--''
           else if fmlookup st ''dash'' = Some (PyStr ''longdash'') then ''-.''
           else if fmlookup st ''dash'' = Some (PyStr ''dashdot'') then ''-.''
           else ''--'')"
  by (auto simp: dash_linestyle_def linestyle_map_def
      split: option.splits py_value.splits if_splits)

lemma fit_series_style:
  assumes "fit_series j ds tc = Inr (Some l)"
  shows "linestyle l =
          (if fmlookup (style tc) ''dash'' = Some (PyStr ''solid'') then ''-''
           else if fmlookup (style tc) ''dash'' = Some (PyStr ''dot'') then '':''
           else if fmlookup (style tc) ''dash'' = Some (PyStr ''dash'') then ''--''
           else if fmlookup (style tc) ''dash'' = Some (PyStr ''longdash'') then ''-.''
           else if fmlookup (style tc) ''dash'' = Some (PyStr ''dashdot'') then ''-.''
           else ''--'')
     \<and> color l = Some (case fmlookup (style tc) ''color'' of None \<Rightarrow> PyStr ''red'' | Some c \<Rightarrow> c)
     \<and> marker l = None"
proof -
  from assms obtain ls where d: "dash_linestyle (style tc) = Inr ls"
    and l: "linestyle l = ls" "color l = Some (style_color (style tc))" "marker l = None"
    by (auto simp: fit_series_def ebind_def split: if_splits sum.splits)
  from dash_linestyle_cases [OF d] l show ?thesis
    by (simp add: style_color_def)
qed

section \<open>Which dataset a trace is resolved against\<close>

text \<open>
  C1. The claim: in \<^verbatim>\<open>create_plotly_figure\<close> a trace of the raw list is resolved against
  the raw per-qubit slice and a trace of the fit list against the fit slice, whatever the
  field values of the trace; a raw trace that is value-equal to a fit trace is still
  resolved against the raw dataset.
  The builder decides with \<^verbatim>\<open>trace_config in config.fit_traces\<close>, a comparison of values
  (lemma \<open>ds_source_by_value\<close>). For one qubit, with the same trace configuration in
  both lists, the raw slice holding amplitudes 3, 1, 3 and the fit slice 2, 1, 2, both
  traces of the returned figure carry the fit amplitudes: the trace of the raw list was
  read from the fit dataset.
\<close>

theorem raw_trace_equal_to_fit_trace_reads_fit_slice:
  "create_plotly_figure one_cell_grid list_lib ds_raw_ex qubits_ex [both_lists_config]
       (Some ds_fit_ex) =
     Inr \<lparr>subplots = Some \<lparr>rows = 1, cols = 1, subplot_titles = [''Qubit q0''],
             horizontal_spacing = 1 / 10, vertical_spacing = 2 / 10\<rparr>,
          fig_data =
            [(1, 1, GoScatter [-1, 0, 1] [2, 1, 2] (Some ''lines+markers'') fmempty
                 \<lparr>tp_name = ''amplitude'', hovertemplate = None, customdata = None,
                  legendgroup = ''amplitude'', showlegend = True\<rparr>),
             (1, 1, GoScatter [-1, 0, 1] [2, 1, 2] (Some ''lines+markers'') fmempty
                 \<lparr>tp_name = ''amplitude'', hovertemplate = None, customdata = None,
                  legendgroup = ''amplitude'', showlegend = True\<rparr>)],
          xaxes_titles = [(1, 1, ''Detuning'')],
          yaxes_titles = [(1, 1, ''Amplitude'')],
          fig_layout = Some \<lparr>title_text = ''Resonator spectroscopy'', layout_legend = fmempty,
             height = 350, width = 800\<rparr>\<rparr>"
  by (simp add: plotly_defs ex_defs)

section \<open>Absent data fields\<close>

text \<open>
  C2. The claim: \<^verbatim>\<open>create_plotly_figure\<close> never raises because a data field is absent
  from a qubit's slice; an absent field, a field of \<^verbatim>\<open>custom_data_sources\<close> included,
  only skips the trace for that qubit.
  The presence check covers \<^verbatim>\<open>x_source\<close>, \<^verbatim>\<open>y_source\<close> and a set \<^verbatim>\<open>z_source\<close>
  (lemma \<open>absent_required_source_skips\<close>); the fields of \<^verbatim>\<open>custom_data_sources\<close> are
  read without a check (lemma \<open>absent_custom_source_raises\<close>). For a visible trace whose
  x and y fields are present and whose custom data field \<^verbatim>\<open>phase\<close> is not, the builder
  ends with a KeyError instead of a figure.
\<close>

theorem absent_custom_data_source_is_KeyError:
  "visible hover_trace
   \<and> ds_contains raw_q0 (x_source hover_trace)
   \<and> ds_contains raw_q0 (y_source hover_trace)
   \<and> custom_data_sources hover_trace = [''phase'']
   \<and> \<not> ds_contains raw_q0 ''phase''
   \<and> create_plotly_figure one_cell_grid list_lib ds_raw_ex qubits_ex [hover_config] None
       = Inl KeyError"
  by (simp add: plotly_defs ex_defs)

section \<open>When the z field is required\<close>




section \<open>No fit dataset\<close>

text \<open>
  C4. The claim: with \<^verbatim>\<open>ds_fit = None\<close> and fit traces configured, either builder skips
  every fit trace for every qubit, raises nothing for it, and renders the raw traces
  unaffected.
  The static builder does so (lemma \<open>mpl_axes_step_without_fit_dataset\<close>), and so does
  the interactive builder when no raw trace equals a fit trace
  (lemma \<open>plotly_figure_without_fit_dataset\<close>). When a raw trace equals a fit trace, the
  interactive builder takes it for a fit trace and skips it too: with the same trace in
  both lists and no fit dataset the figure has no trace at all, while the configuration
  without its fit traces gives the raw trace.
\<close>

theorem no_fit_dataset_drops_equal_raw_trace:
  "(\<exists>fig. create_plotly_figure one_cell_grid list_lib ds_raw_ex qubits_ex [both_lists_config] None
        = Inr fig
      \<and> fig_data fig = [])
   \<and> (\<exists>fig. create_plotly_figure one_cell_grid list_lib ds_raw_ex qubits_ex [raw_only_config] None
        = Inr fig
      \<and> fig_data fig =
            [(1, 1, GoScatter [-1, 0, 1] [3, 1, 3] (Some ''lines+markers'') fmempty
                 \<lparr>tp_name = ''amplitude'', hovertemplate = None, customdata = None,
                  legendgroup = ''amplitude'', showlegend = True\<rparr>)])"
  by (simp add: plotly_defs ex_defs)

section \<open>Empty configuration lists\<close>

text \<open>
  C5. With an empty \<^verbatim>\<open>plot_configs\<close> list neither builder raises, whatever the datasets,
  the qubit list, the layout provider and the plotting libraries:
  \<^verbatim>\<open>create_plotly_figure\<close> returns the empty figure (no subplot grid, no trace, no
  layout update) and \<^verbatim>\<open>create_matplotlib_figure\<close> returns the figure of
  \<^verbatim>\<open>plt.subplots()\<close>, which has exactly one axes, with nothing drawn on it and no title
  or legend.
\<close>

theorem empty_plot_configs_give_blank_figures:
  "create_plotly_figure PlotlyQubitGrid lib ds_raw qubits [] ds_fit = Inr go_Figure
   \<and> subplots (go_Figure :: 'v plotly_figure) = None
   \<and> fig_data (go_Figure :: 'v plotly_figure) = []
   \<and> xaxes_titles (go_Figure :: 'v plotly_figure) = []
   \<and> yaxes_titles (go_Figure :: 'v plotly_figure) = []
   \<and> fig_layout (go_Figure :: 'v plotly_figure) = None
   \<and> create_matplotlib_figure QubitGrid mlib ds_raw qubits [] ds_fit = Inr plt_subplots
   \<and> length (fig_axes (plt_subplots :: 'v mpl_figure)) = 1
   \<and> lines (hd (fig_axes (plt_subplots :: 'v mpl_figure))) = []
   \<and> suptitle (plt_subplots :: 'v mpl_figure) = None
   \<and> \<not> fig_legend (plt_subplots :: 'v mpl_figure)"
  by (simp add: create_plotly_figure_def create_matplotlib_figure_def go_Figure_def
      plt_subplots_def blank_axes_def)

section \<open>Legend entries\<close>

text \<open>
  C6, as stated: for every trace drawn in more than one panel, exactly the first panel
  in iteration order carries its legend entry; in the static builder the series label
  equals the trace name iff the axes index is 0, and is the empty string otherwise.
  The label is the trace name on the first axes and the empty string on every other
  axes, so for a trace whose name is the empty string the label equals the name on every
  axes: with two qubits and one unnamed raw trace, the series on the second axes
  (index 1) has a label equal to the trace name.
\<close>

theorem unnamed_trace_label_equals_name_on_second_axes:
  "name unnamed_trace = []
   \<and> (\<exists>fig. create_matplotlib_figure two_axes_grid list_pyplot ds_raw_two qubits_two
          [unnamed_config] None = Inr fig
        \<and> map label (lines (fig_axes fig ! 0)) = [name unnamed_trace]
        \<and> map label (lines (fig_axes fig ! 1)) = [name unnamed_trace])"
  by (simp add: mpl_defs ex_defs)

text \<open>
  C6, amended: only the first panel in iteration order carries legend entries. The traces
  of a figure that \<^verbatim>\<open>create_plotly_figure\<close> returns are those of its panels in iteration
  order; the panel of position \<open>k\<close> holds one primitive for each trace drawn for its
  qubit, placed at row \<open>k div n_cols + 1\<close> and column \<open>k mod n_cols + 1\<close>, with legend
  visibility true iff \<open>k = 0\<close> and with legend group and name equal to the trace name.
  In a figure that \<^verbatim>\<open>create_matplotlib_figure\<close> returns, every axes holds, after what
  the grid's figure had on it, the series of the panels drawn on it; the panel of
  position \<open>k\<close> holds one series for each raw trace and then each fit trace drawn for its
  qubit, labelled with the trace name when \<open>k = 0\<close> and with the empty string otherwise.
  So for a trace with a non-empty name the label is the name iff \<open>k = 0\<close>.
\<close>

theorem legend_entries_only_in_first_panel:
  "(create_plotly_figure G lib ds_raw qubits (config # rest) ds_fit = Inr pfig \<longrightarrow>
      (\<exists>grid cells. G ds_raw (map grid_location qubits) = Inr grid
         \<and> length cells = length (name_dicts grid)
         \<and> fig_data pfig = concat cells
         \<and> (\<forall>k<length cells. \<exists>q raw fit. first_value (name_dicts grid ! k) = Inr q
              \<and> sel_qubit ds_raw q = Inr raw \<and> sel_fit ds_fit q = Inr fit
              \<and> list_all2 (\<lambda>e tc. fst e = int k div n_cols grid + 1
                     \<and> fst (snd e) = int k mod n_cols grid + 1
                     \<and> showlegend (props_of (snd (snd e))) = (k = 0)
                     \<and> legendgroup (props_of (snd (snd e))) = name tc
                     \<and> tp_name (props_of (snd (snd e))) = name tc)
                   (cells ! k)
                   (filter (drawn_in_cell config raw fit) (traces config @ fit_traces config)))))
   \<and> (create_matplotlib_figure Q mlib ds_raw qubits (config # rest) ds_fit = Inr mfig \<longrightarrow>
      (\<exists>grid panels. Q ds_raw (map grid_location qubits) = Inr grid
         \<and> length panels = length (grid_iter grid)
         \<and> length (fig_axes mfig) = length (fig_axes (grid_fig grid))
         \<and> (\<forall>h<length (fig_axes (grid_fig grid)). lines (fig_axes mfig ! h)
              = lines (fig_axes (grid_fig grid) ! h)
                @ concat (map snd (filter (\<lambda>p. fst p = h) (zip (map fst (grid_iter grid)) panels))))
         \<and> (\<forall>k<length panels. \<exists>q raw fit. first_value (snd (grid_iter grid ! k)) = Inr q
              \<and> sel_qubit ds_raw q = Inr raw \<and> sel_fit ds_fit q = Inr fit
              \<and> list_all2 (\<lambda>l tc. label l = (if k = 0 then name tc else [])
                     \<and> (name tc \<noteq> [] \<longrightarrow> (label l = name tc) = (k = 0)))
                   (panels ! k)
                   (filter (drawable raw) (traces config) @ fit_drawn config fit))))"
proof (intro conjI impI)
  assume "create_plotly_figure G lib ds_raw qubits (config # rest) ds_fit = Inr pfig"
  from plotly_figure_data [OF this] obtain grid cells where
    g: "G ds_raw (map grid_location qubits) = Inr grid"
    "length cells = length (name_dicts grid)" "fig_data pfig = concat cells"
    and c: "\<forall>k<length cells. \<exists>q raw fit. first_value (name_dicts grid ! k) = Inr q
            \<and> sel_qubit ds_raw q = Inr raw \<and> sel_fit ds_fit q = Inr fit
            \<and> list_all2 (\<lambda>e tc. fst e = int k div n_cols grid + 1
                   \<and> fst (snd e) = int k mod n_cols grid + 1
                   \<and> render_trace lib config (int k) raw fit tc = Inr (Some (snd (snd e))))
                 (cells ! k)
                 (filter (drawn_in_cell config raw fit) (traces config @ fit_traces config))"
    by blast
  have "\<forall>k<length cells. \<exists>q raw fit. first_value (name_dicts grid ! k) = Inr q
              \<and> sel_qubit ds_raw q = Inr raw \<and> sel_fit ds_fit q = Inr fit
              \<and> list_all2 (\<lambda>e tc. fst e = int k div n_cols grid + 1
                     \<and> fst (snd e) = int k mod n_cols grid + 1
                     \<and> showlegend (props_of (snd (snd e))) = (k = 0)
                     \<and> legendgroup (props_of (snd (snd e))) = name tc
                     \<and> tp_name (props_of (snd (snd e))) = name tc)
                   (cells ! k)
                   (filter (drawn_in_cell config raw fit) (traces config @ fit_traces config))"
  proof (intro allI impI)
    fix k
    assume "k < length cells"
    with c obtain q raw fit where
      q: "first_value (name_dicts grid ! k) = Inr q" "sel_qubit ds_raw q = Inr raw"
        "sel_fit ds_fit q = Inr fit"
      and l: "list_all2 (\<lambda>e tc. fst e = int k div n_cols grid + 1
                   \<and> fst (snd e) = int k mod n_cols grid + 1
                   \<and> render_trace lib config (int k) raw fit tc = Inr (Some (snd (snd e))))
                 (cells ! k)
                 (filter (drawn_in_cell config raw fit) (traces config @ fit_traces config))"
      by blast
    have "list_all2 (\<lambda>e tc. fst e = int k div n_cols grid + 1
                     \<and> fst (snd e) = int k mod n_cols grid + 1
                     \<and> showlegend (props_of (snd (snd e))) = (k = 0)
                     \<and> legendgroup (props_of (snd (snd e))) = name tc
                     \<and> tp_name (props_of (snd (snd e))) = name tc)
                   (cells ! k)
                   (filter (drawn_in_cell config raw fit) (traces config @ fit_traces config))"
      using l by (rule list_all2_mono) (auto dest: render_trace_props)
    with q show "\<exists>q raw fit. first_value (name_dicts grid ! k) = Inr q
              \<and> sel_qubit ds_raw q = Inr raw \<and> sel_fit ds_fit q = Inr fit
              \<and> list_all2 (\<lambda>e tc. fst e = int k div n_cols grid + 1
                     \<and> fst (snd e) = int k mod n_cols grid + 1
                     \<and> showlegend (props_of (snd (snd e))) = (k = 0)
                     \<and> legendgroup (props_of (snd (snd e))) = name tc
                     \<and> tp_name (props_of (snd (snd e))) = name tc)
                   (cells ! k)
                   (filter (drawn_in_cell config raw fit) (traces config @ fit_traces config))"
      by blast
  qed
  with g show "\<exists>grid cells. G ds_raw (map grid_location qubits) = Inr grid
         \<and> length cells = length (name_dicts grid)
         \<and> fig_data pfig = concat cells
         \<and> (\<forall>k<length cells. \<exists>q raw fit. first_value (name_dicts grid ! k) = Inr q
              \<and> sel_qubit ds_raw q = Inr raw \<and> sel_fit ds_fit q = Inr fit
              \<and> list_all2 (\<lambda>e tc. fst e = int k div n_cols grid + 1
                     \<and> fst (snd e) = int k mod n_cols grid + 1
                     \<and> showlegend (props_of (snd (snd e))) = (k = 0)
                     \<and> legendgroup (props_of (snd (snd e))) = name tc
                     \<and> tp_name (props_of (snd (snd e))) = name tc)
                   (cells ! k)
                   (filter (drawn_in_cell config raw fit) (traces config @ fit_traces config)))"
    by blast
next
  assume "create_matplotlib_figure Q mlib ds_raw qubits (config # rest) ds_fit = Inr mfig"
  from matplotlib_figure_lines [OF this] obtain grid panels where
    g: "Q ds_raw (map grid_location qubits) = Inr grid"
    "length panels = length (grid_iter grid)"
    "length (fig_axes mfig) = length (fig_axes (grid_fig grid))"
    and lines: "\<forall>h<length (fig_axes (grid_fig grid)). lines (fig_axes mfig ! h)
            = lines (fig_axes (grid_fig grid) ! h)
              @ concat (map (\<lambda>p. fst (snd p) @ snd (snd p))
                  (filter (\<lambda>p. fst p = h) (zip (map fst (grid_iter grid)) panels)))"
    and p: "\<forall>k<length panels. \<exists>q raw fit. first_value (snd (grid_iter grid ! k)) = Inr q
            \<and> sel_qubit ds_raw q = Inr raw \<and> sel_fit ds_fit q = Inr fit
            \<and> list_all2 (\<lambda>l tc. raw_series k raw tc = Inr (Some l)) (fst (panels ! k))
                 (filter (drawable raw) (traces config))
            \<and> list_all2 (\<lambda>l tc. \<exists>f. fit = Some f \<and> fit_series k f tc = Inr (Some l))
                 (snd (panels ! k)) (fit_drawn config fit)"
    by blast
  let ?panels = "map (\<lambda>rf. fst rf @ snd rf) panels"
  have zip: "map (\<lambda>p. fst (snd p) @ snd (snd p)) (filter (\<lambda>p. fst p = h) (zip hs ps))
      = map snd (filter (\<lambda>p. fst p = h) (zip hs (map (\<lambda>rf. fst rf @ snd rf) ps)))"
    for h :: nat and hs and ps :: "('a mpl_line list \<times> 'a mpl_line list) list"
  proof (induction hs arbitrary: ps)
    case Nil
    then show ?case by simp
  next
    case (Cons x xs)
    then show ?case by (cases ps) simp_all
  qed
  have l1: "length ?panels = length (grid_iter grid)" using g by simp
  have l2: "\<forall>h<length (fig_axes (grid_fig grid)). lines (fig_axes mfig ! h)
              = lines (fig_axes (grid_fig grid) ! h)
                @ concat (map snd (filter (\<lambda>p. fst p = h) (zip (map fst (grid_iter grid)) ?panels)))"
    using lines by (simp add: zip)
  have l3: "\<forall>k<length ?panels. \<exists>q raw fit. first_value (snd (grid_iter grid ! k)) = Inr q
              \<and> sel_qubit ds_raw q = Inr raw \<and> sel_fit ds_fit q = Inr fit
              \<and> list_all2 (\<lambda>l tc. label l = (if k = 0 then name tc else [])
                     \<and> (name tc \<noteq> [] \<longrightarrow> (label l = name tc) = (k = 0)))
                   (?panels ! k)
                   (filter (drawable raw) (traces config) @ fit_drawn config fit)"
  proof (intro allI impI)
    fix k
    assume k: "k < length ?panels"
    with p obtain q raw fit where
      q: "first_value (snd (grid_iter grid ! k)) = Inr q" "sel_qubit ds_raw q = Inr raw"
        "sel_fit ds_fit q = Inr fit"
      and r: "list_all2 (\<lambda>l tc. raw_series k raw tc = Inr (Some l)) (fst (panels ! k))
                 (filter (drawable raw) (traces config))"
      and f: "list_all2 (\<lambda>l tc. \<exists>f. fit = Some f \<and> fit_series k f tc = Inr (Some l))
                 (snd (panels ! k)) (fit_drawn config fit)"
      by auto
    have r': "list_all2 (\<lambda>l tc. label l = (if k = 0 then name tc else [])
                     \<and> (name tc \<noteq> [] \<longrightarrow> (label l = name tc) = (k = 0)))
                 (fst (panels ! k)) (filter (drawable raw) (traces config))"
      using r by (rule list_all2_mono) (auto dest: raw_series_label)
    have f': "list_all2 (\<lambda>l tc. label l = (if k = 0 then name tc else [])
                     \<and> (name tc \<noteq> [] \<longrightarrow> (label l = name tc) = (k = 0)))
                 (snd (panels ! k)) (fit_drawn config fit)"
      using f by (rule list_all2_mono) (auto dest: fit_series_label)
    from r' f' k have "list_all2 (\<lambda>l tc. label l = (if k = 0 then name tc else [])
                     \<and> (name tc \<noteq> [] \<longrightarrow> (label l = name tc) = (k = 0)))
                   (?panels ! k)
                   (filter (drawable raw) (traces config) @ fit_drawn config fit)"
      by (simp add: list_all2_appendI)
    with q show "\<exists>q raw fit. first_value (snd (grid_iter grid ! k)) = Inr q
              \<and> sel_qubit ds_raw q = Inr raw \<and> sel_fit ds_fit q = Inr fit
              \<and> list_all2 (\<lambda>l tc. label l = (if k = 0 then name tc else [])
                     \<and> (name tc \<noteq> [] \<longrightarrow> (label l = name tc) = (k = 0)))
                   (?panels ! k)
                   (filter (drawable raw) (traces config) @ fit_drawn config fit)"
      by blast
  qed
  from g(1,3) l1 l2 l3
  show "\<exists>grid panels. Q ds_raw (map grid_location qubits) = Inr grid
         \<and> length panels = length (grid_iter grid)
         \<and> length (fig_axes mfig) = length (fig_axes (grid_fig grid))
         \<and> (\<forall>h<length (fig_axes (grid_fig grid)). lines (fig_axes mfig ! h)
              = lines (fig_axes (grid_fig grid) ! h)
                @ concat (map snd (filter (\<lambda>p. fst p = h) (zip (map fst (grid_iter grid)) panels))))
         \<and> (\<forall>k<length panels. \<exists>q raw fit. first_value (snd (grid_iter grid ! k)) = Inr q
              \<and> sel_qubit ds_raw q = Inr raw \<and> sel_fit ds_fit q = Inr fit
              \<and> list_all2 (\<lambda>l tc. label l = (if k = 0 then name tc else [])
                     \<and> (name tc \<noteq> [] \<longrightarrow> (label l = name tc) = (k = 0)))
                   (panels ! k)
                   (filter (drawable raw) (traces config) @ fit_drawn config fit))"
    by blast
qed

theorem legend_entries_only_in_first_panel_witness:
  "(\<exists>fig. create_plotly_figure two_cell_grid list_lib ds_raw_two qubits_two [raw_only_config] None
        = Inr fig
      \<and> map (\<lambda>e. (fst e, fst (snd e), showlegend (props_of (snd (snd e))),
                  legendgroup (props_of (snd (snd e))))) (fig_data fig)
          = [(1, 1, True, ''amplitude''), (1, 2, False, ''amplitude'')])
   \<and> (\<exists>fig. create_matplotlib_figure two_axes_grid list_pyplot ds_raw_two qubits_two [fit_config]
          (Some ds_fit_two) = Inr fig
      \<and> map label (lines (fig_axes fig ! 0)) = [''amplitude'', ''fit'']
      \<and> map label (lines (fig_axes fig ! 1)) = [[], []])"
proof -
  obtain pfig where prun: "create_plotly_figure two_cell_grid list_lib ds_raw_two qubits_two
      [raw_only_config] None = Inr pfig"
    by (simp add: plotly_defs ex_defs)
  obtain mfig where mrun: "create_matplotlib_figure two_axes_grid list_pyplot ds_raw_two
      qubits_two [fit_config] (Some ds_fit_two) = Inr mfig"
    by (simp add: mpl_defs ex_defs)
  note inst = legend_entries_only_in_first_panel [where G = two_cell_grid and lib = list_lib
      and ds_raw = ds_raw_two and qubits = qubits_two and config = raw_only_config
      and rest = "[]" and ds_fit = None and pfig = pfig]
  from inst prun obtain grid cells where
    g: "two_cell_grid ds_raw_two (map grid_location qubits_two) = Inr grid"
    and len: "length cells = length (name_dicts grid)"
    and data: "fig_data pfig = concat cells"
    and c: "\<forall>k<length cells. \<exists>q raw fit. first_value (name_dicts grid ! k) = Inr q
              \<and> sel_qubit ds_raw_two q = Inr raw \<and> sel_fit None q = Inr fit
              \<and> list_all2 (\<lambda>e tc. fst e = int k div n_cols grid + 1
                     \<and> fst (snd e) = int k mod n_cols grid + 1
                     \<and> showlegend (props_of (snd (snd e))) = (k = 0)
                     \<and> legendgroup (props_of (snd (snd e))) = name tc
                     \<and> tp_name (props_of (snd (snd e))) = name tc)
                   (cells ! k)
                   (filter (drawn_in_cell raw_only_config raw fit)
                      (traces raw_only_config @ fit_traces raw_only_config))"
    by blast
  from g have grid: "grid = \<lparr>n_rows = 1, n_cols = 2, name_dicts = [q0_dict, q1_dict]\<rparr>"
    by (auto simp: two_cell_grid_def)
  with len obtain c0 c1 where cells: "cells = [c0, c1]"
    by (auto simp: length_Suc_conv numeral_2_eq_2)
  have drawn: "filter (drawn_in_cell raw_only_config raw_q0 None)
      (traces raw_only_config @ fit_traces raw_only_config) = [amplitude_trace]"
    by (simp add: drawn_in_cell_def ds_source_def is_fit_trace_def required_sources_def
        ds_contains_def ex_defs)
  have slices: "raw = raw_q0 \<and> fit = None"
    if "first_value nd = Inr q" and "sel_qubit ds_raw_two q = Inr raw"
      and "sel_fit None q = Inr fit" and "nd = q0_dict \<or> nd = q1_dict"
    for nd q raw and fit :: "rat list xr_slice option"
    using that
    by (auto simp: first_value_def sel_qubit_def sel_fit_def ebind_simps ex_defs
        split: if_splits)
  from cells have in_range: "0 < length cells" "1 < length cells" by simp_all
  from c [rule_format, OF in_range(1)] obtain q raw fit where
    s0: "first_value (name_dicts grid ! 0) = Inr q" "sel_qubit ds_raw_two q = Inr raw"
      "sel_fit None q = Inr fit"
    and l0: "list_all2 (\<lambda>e tc. fst e = int 0 div n_cols grid + 1
                     \<and> fst (snd e) = int 0 mod n_cols grid + 1
                     \<and> showlegend (props_of (snd (snd e))) = ((0::nat) = 0)
                     \<and> legendgroup (props_of (snd (snd e))) = name tc
                     \<and> tp_name (props_of (snd (snd e))) = name tc)
                   (cells ! 0)
                   (filter (drawn_in_cell raw_only_config raw fit)
                      (traces raw_only_config @ fit_traces raw_only_config))"
    by blast
  from slices [OF s0] grid have "raw = raw_q0 \<and> fit = None" by simp
  with l0 drawn cells grid obtain e0 where c0: "c0 = [e0]" "fst e0 = 1" "fst (snd e0) = 1"
    "showlegend (props_of (snd (snd e0)))" "legendgroup (props_of (snd (snd e0))) = ''amplitude''"
    by (auto simp: list_all2_Cons2 amplitude_trace_def simp del: filter_append)
  from c [rule_format, OF in_range(2)] obtain q' raw' fit' where
    s1: "first_value (name_dicts grid ! 1) = Inr q'" "sel_qubit ds_raw_two q' = Inr raw'"
      "sel_fit None q' = Inr fit'"
    and l1: "list_all2 (\<lambda>e tc. fst e = int 1 div n_cols grid + 1
                     \<and> fst (snd e) = int 1 mod n_cols grid + 1
                     \<and> showlegend (props_of (snd (snd e))) = ((1::nat) = 0)
                     \<and> legendgroup (props_of (snd (snd e))) = name tc
                     \<and> tp_name (props_of (snd (snd e))) = name tc)
                   (cells ! 1)
                   (filter (drawn_in_cell raw_only_config raw' fit')
                      (traces raw_only_config @ fit_traces raw_only_config))"
    by blast
  from slices [OF s1] grid have "raw' = raw_q0 \<and> fit' = None" by simp
  with l1 drawn cells grid obtain e1 where c1: "c1 = [e1]" "fst e1 = 1" "fst (snd e1) = 2"
    "\<not> showlegend (props_of (snd (snd e1)))" "legendgroup (props_of (snd (snd e1))) = ''amplitude''"
    by (auto simp: list_all2_Cons2 amplitude_trace_def simp del: filter_append)
  from data cells c0 c1
  have interactive: "map (\<lambda>e. (fst e, fst (snd e), showlegend (props_of (snd (snd e))),
                  legendgroup (props_of (snd (snd e))))) (fig_data pfig)
          = [(1, 1, True, ''amplitude''), (1, 2, False, ''amplitude'')]"
    by simp
  note inst2 = legend_entries_only_in_first_panel [where Q = two_axes_grid and mlib = list_pyplot
      and ds_raw = ds_raw_two and qubits = qubits_two and config = fit_config
      and rest = "[]" and ds_fit = "Some ds_fit_two" and mfig = mfig]
  from inst2 mrun obtain mgrid panels where
    mg: "two_axes_grid ds_raw_two (map grid_location qubits_two) = Inr mgrid"
    and mlen: "length panels = length (grid_iter mgrid)"
    and lines: "\<forall>h<length (fig_axes (grid_fig mgrid)). lines (fig_axes mfig ! h)
              = lines (fig_axes (grid_fig mgrid) ! h)
                @ concat (map snd (filter (\<lambda>p. fst p = h) (zip (map fst (grid_iter mgrid)) panels)))"
    and p: "\<forall>k<length panels. \<exists>q raw fit. first_value (snd (grid_iter mgrid ! k)) = Inr q
              \<and> sel_qubit ds_raw_two q = Inr raw \<and> sel_fit (Some ds_fit_two) q = Inr fit
              \<and> list_all2 (\<lambda>l tc. label l = (if k = 0 then name tc else [])
                     \<and> (name tc \<noteq> [] \<longrightarrow> (label l = name tc) = (k = 0)))
                   (panels ! k)
                   (filter (drawable raw) (traces fit_config) @ fit_drawn fit_config fit)"
    by blast
  from mg have mgrid: "mgrid = \<lparr>grid_fig = \<lparr>suptitle = None, fig_axes = [blank_axes, blank_axes],
       fig_legend = False, tight_layout_rect = None\<rparr>, iter_axes = [(0, q0_dict), (1, q1_dict)]\<rparr>"
    by (auto simp: two_axes_grid_def)
  with mlen obtain p0 p1 where panels: "panels = [p0, p1]"
    by (auto simp: length_Suc_conv numeral_2_eq_2 grid_iter_def)
  have mdrawn: "filter (drawable raw_q0) (traces fit_config) @ fit_drawn fit_config (Some fit_q0)
      = [amplitude_trace, detuning_trace]"
    by (simp add: drawable_def fit_drawn_def ds_bool_def data_vars_def ds_contains_def ex_defs)
  have mslices: "raw = raw_q0 \<and> fit = Some fit_q0"
    if "first_value nd = Inr q" and "sel_qubit ds_raw_two q = Inr raw"
      and "sel_fit (Some ds_fit_two) q = Inr fit" and "nd = q0_dict \<or> nd = q1_dict"
    for nd q raw fit
    using that
    by (auto simp: first_value_def sel_qubit_def sel_fit_def ebind_simps ex_defs
        split: if_splits)
  from panels have panel_range: "0 < length panels" "1 < length panels" by simp_all
  from p [rule_format, OF panel_range(1)] obtain q raw fit where
    m0: "first_value (snd (grid_iter mgrid ! 0)) = Inr q" "sel_qubit ds_raw_two q = Inr raw"
      "sel_fit (Some ds_fit_two) q = Inr fit"
    and k0: "list_all2 (\<lambda>l tc. label l = (if (0::nat) = 0 then name tc else [])
                     \<and> (name tc \<noteq> [] \<longrightarrow> (label l = name tc) = ((0::nat) = 0)))
                   (panels ! 0)
                   (filter (drawable raw) (traces fit_config) @ fit_drawn fit_config fit)"
    by blast
  from mslices [OF m0] mgrid have "raw = raw_q0 \<and> fit = Some fit_q0"
    by (simp add: grid_iter_def)
  with k0 mdrawn panels have p0: "map label p0 = [''amplitude'', ''fit'']"
    by (auto simp: list_all2_Cons2 amplitude_trace_def detuning_trace_def)
  from p [rule_format, OF panel_range(2)] obtain q' raw' fit' where
    m1: "first_value (snd (grid_iter mgrid ! 1)) = Inr q'" "sel_qubit ds_raw_two q' = Inr raw'"
      "sel_fit (Some ds_fit_two) q' = Inr fit'"
    and k1: "list_all2 (\<lambda>l tc. label l = (if (1::nat) = 0 then name tc else [])
                     \<and> (name tc \<noteq> [] \<longrightarrow> (label l = name tc) = ((1::nat) = 0)))
                   (panels ! 1)
                   (filter (drawable raw') (traces fit_config) @ fit_drawn fit_config fit')"
    by blast
  from mslices [OF m1] mgrid have "raw' = raw_q0 \<and> fit' = Some fit_q0"
    by (simp add: grid_iter_def)
  with k1 mdrawn panels have p1: "map label p1 = [[], []]"
    by (auto simp: list_all2_Cons2 amplitude_trace_def detuning_trace_def)
  from lines [rule_format, of 0] lines [rule_format, of 1] panels mgrid p0 p1
  have static: "map label (lines (fig_axes mfig ! 0)) = [''amplitude'', ''fit'']"
    "map label (lines (fig_axes mfig ! 1)) = [[], []]"
    by (simp_all add: grid_iter_def blank_axes_def)
  show ?thesis
  proof (intro conjI)
    from prun interactive
    show "\<exists>fig. create_plotly_figure two_cell_grid list_lib ds_raw_two qubits_two
        [raw_only_config] None = Inr fig
      \<and> map (\<lambda>e. (fst e, fst (snd e), showlegend (props_of (snd (snd e))),
                  legendgroup (props_of (snd (snd e))))) (fig_data fig)
          = [(1, 1, True, ''amplitude''), (1, 2, False, ''amplitude'')]"
      by (intro exI [of _ pfig] conjI)
    from mrun static
    show "\<exists>fig. create_matplotlib_figure two_axes_grid list_pyplot ds_raw_two qubits_two
          [fit_config] (Some ds_fit_two) = Inr fig
      \<and> map label (lines (fig_axes fig ! 0)) = [''amplitude'', ''fit'']
      \<and> map label (lines (fig_axes fig ! 1)) = [[], []]"
      by (intro exI [of _ mfig] conjI)
  qed
qed

section \<open>Line style and colour of a fit series\<close>

text \<open>
  C7. In a figure that \<^verbatim>\<open>create_matplotlib_figure\<close> returns, every axes holds, after what
  the grid's figure had on it, the raw series and then the fit series of each panel drawn
  on it. A panel has one raw series for each visible raw trace whose x and y fields are
  in the raw slice, drawn with marker \<^verbatim>\<open>.\<close> and linestyle \<^verbatim>\<open>-\<close>, and one fit series for
  each fit trace drawn for its qubit: the visible fit traces whose x and y fields are in
  the fit slice, when that slice has a data variable. The linestyle of a fit series is
  the image of the style's \<^verbatim>\<open>dash\<close> value under solid to \<^verbatim>\<open>-\<close>, dot to \<^verbatim>\<open>:\<close>, dash to
  \<^verbatim>\<open>--\<close>, longdash to \<^verbatim>\<open>-.\<close>, dashdot to \<^verbatim>\<open>-.\<close>, and \<^verbatim>\<open>--\<close> when the key is absent or
  holds any other value; its colour is the style's \<^verbatim>\<open>color\<close> value, and red when the key
  is absent.
\<close>

theorem fit_traces_linestyle_and_color:
  assumes "create_matplotlib_figure Q lib ds_raw qubits (config # rest) ds_fit = Inr fig"
  shows "\<exists>grid panels. Q ds_raw (map grid_location qubits) = Inr grid
     \<and> length panels = length (grid_iter grid)
     \<and> (\<forall>h<length (fig_axes (grid_fig grid)). lines (fig_axes fig ! h)
            = lines (fig_axes (grid_fig grid) ! h)
              @ concat (map (\<lambda>p. fst (snd p) @ snd (snd p))
                  (filter (\<lambda>p. fst p = h) (zip (map fst (grid_iter grid)) panels))))
     \<and> (\<forall>k<length panels. \<exists>q raw fit. first_value (snd (grid_iter grid ! k)) = Inr q
            \<and> sel_qubit ds_raw q = Inr raw \<and> sel_fit ds_fit q = Inr fit
            \<and> list_all2 (\<lambda>l tc. marker l = Some ''.'' \<and> linestyle l = ''-'')
                 (fst (panels ! k)) (filter (drawable raw) (traces config))
            \<and> list_all2 (\<lambda>l tc.
                   linestyle l =
                     (if fmlookup (style tc) ''dash'' = Some (PyStr ''solid'') then ''-''
                      else if fmlookup (style tc) ''dash'' = Some (PyStr ''dot'') then '':''
                      else if fmlookup (style tc) ''dash'' = Some (PyStr ''dash'') then ''--''
                      else if fmlookup (style tc) ''dash'' = Some (PyStr ''longdash'') then ''-.''
                      else if fmlookup (style tc) ''dash'' = Some (PyStr ''dashdot'') then ''-.''
                      else ''--'')
                   \<and> color l = Some (case fmlookup (style tc) ''color'' of
                                      None \<Rightarrow> PyStr ''red'' | Some c \<Rightarrow> c))
                 (snd (panels ! k)) (fit_drawn config fit))"
proof -
  from matplotlib_figure_lines [OF assms] obtain grid panels where
    g: "Q ds_raw (map grid_location qubits) = Inr grid"
    "length panels = length (grid_iter grid)"
    "\<forall>h<length (fig_axes (grid_fig grid)). lines (fig_axes fig ! h)
            = lines (fig_axes (grid_fig grid) ! h)
              @ concat (map (\<lambda>p. fst (snd p) @ snd (snd p))
                  (filter (\<lambda>p. fst p = h) (zip (map fst (grid_iter grid)) panels)))"
    and p: "\<forall>k<length panels. \<exists>q raw fit. first_value (snd (grid_iter grid ! k)) = Inr q
            \<and> sel_qubit ds_raw q = Inr raw \<and> sel_fit ds_fit q = Inr fit
            \<and> list_all2 (\<lambda>l tc. raw_series k raw tc = Inr (Some l)) (fst (panels ! k))
                 (filter (drawable raw) (traces config))
            \<and> list_all2 (\<lambda>l tc. \<exists>f. fit = Some f \<and> fit_series k f tc = Inr (Some l))
                 (snd (panels ! k)) (fit_drawn config fit)"
    by blast
  have "\<forall>k<length panels. \<exists>q raw fit. first_value (snd (grid_iter grid ! k)) = Inr q
            \<and> sel_qubit ds_raw q = Inr raw \<and> sel_fit ds_fit q = Inr fit
            \<and> list_all2 (\<lambda>l tc. marker l = Some ''.'' \<and> linestyle l = ''-'')
                 (fst (panels ! k)) (filter (drawable raw) (traces config))
            \<and> list_all2 (\<lambda>l tc.
                   linestyle l =
                     (if fmlookup (style tc) ''dash'' = Some (PyStr ''solid'') then ''-''
                      else if fmlookup (style tc) ''dash'' = Some (PyStr ''dot'') then '':''
                      else if fmlookup (style tc) ''dash'' = Some (PyStr ''dash'') then ''--''
                      else if fmlookup (style tc) ''dash'' = Some (PyStr ''longdash'') then ''-.''
                      else if fmlookup (style tc) ''dash'' = Some (PyStr ''dashdot'') then ''-.''
                      else ''--'')
                   \<and> color l = Some (case fmlookup (style tc) ''color'' of
                                      None \<Rightarrow> PyStr ''red'' | Some c \<Rightarrow> c))
                 (snd (panels ! k)) (fit_drawn config fit)"
  proof (intro allI impI)
    fix k
    assume "k < length panels"
    with p obtain q raw fit where
      q: "first_value (snd (grid_iter grid ! k)) = Inr q" "sel_qubit ds_raw q = Inr raw"
        "sel_fit ds_fit q = Inr fit"
      and r: "list_all2 (\<lambda>l tc. raw_series k raw tc = Inr (Some l)) (fst (panels ! k))
                 (filter (drawable raw) (traces config))"
      and f: "list_all2 (\<lambda>l tc. \<exists>f. fit = Some f \<and> fit_series k f tc = Inr (Some l))
                 (snd (panels ! k)) (fit_drawn config fit)"
      by blast
    have r': "list_all2 (\<lambda>l tc. marker l = Some ''.'' \<and> linestyle l = ''-'')
                 (fst (panels ! k)) (filter (drawable raw) (traces config))"
      using r by (rule list_all2_mono) (simp add: raw_series_style)
    have f': "list_all2 (\<lambda>l tc.
                   linestyle l =
                     (if fmlookup (style tc) ''dash'' = Some (PyStr ''solid'') then ''-''
                      else if fmlookup (style tc) ''dash'' = Some (PyStr ''dot'') then '':''
                      else if fmlookup (style tc) ''dash'' = Some (PyStr ''dash'') then ''--''
                      else if fmlookup (style tc) ''dash'' = Some (PyStr ''longdash'') then ''-.''
                      else if fmlookup (style tc) ''dash'' = Some (PyStr ''dashdot'') then ''-.''
                      else ''--'')
                   \<and> color l = Some (case fmlookup (style tc) ''color'' of
                                      None \<Rightarrow> PyStr ''red'' | Some c \<Rightarrow> c))
                 (snd (panels ! k)) (fit_drawn config fit)"
      using f
    proof (rule list_all2_mono)
      fix l tc
      assume "\<exists>f. fit = Some f \<and> fit_series k f tc = Inr (Some l)"
      then obtain f where "fit_series k f tc = Inr (Some l)" by blast
      from fit_series_style [OF this]
      show "linestyle l =
                     (if fmlookup (style tc) ''dash'' = Some (PyStr ''solid'') then ''-''
                      else if fmlookup (style tc) ''dash'' = Some (PyStr ''dot'') then '':''
                      else if fmlookup (style tc) ''dash'' = Some (PyStr ''dash'') then ''--''
                      else if fmlookup (style tc) ''dash'' = Some (PyStr ''longdash'') then ''-.''
                      else if fmlookup (style tc) ''dash'' = Some (PyStr ''dashdot'') then ''-.''
                      else ''--'')
                   \<and> color l = Some (case fmlookup (style tc) ''color'' of
                                      None \<Rightarrow> PyStr ''red'' | Some c \<Rightarrow> c)"
        by blast
    qed
    from q r' f' show "\<exists>q raw fit. first_value (snd (grid_iter grid ! k)) = Inr q
            \<and> sel_qubit ds_raw q = Inr raw \<and> sel_fit ds_fit q = Inr fit
            \<and> list_all2 (\<lambda>l tc. marker l = Some ''.'' \<and> linestyle l = ''-'')
                 (fst (panels ! k)) (filter (drawable raw) (traces config))
            \<and> list_all2 (\<lambda>l tc.
                   linestyle l =
                     (if fmlookup (style tc) ''dash'' = Some (PyStr ''solid'') then ''-''
                      else if fmlookup (style tc) ''dash'' = Some (PyStr ''dot'') then '':''
                      else if fmlookup (style tc) ''dash'' = Some (PyStr ''dash'') then ''--''
                      else if fmlookup (style tc) ''dash'' = Some (PyStr ''longdash'') then ''-.''
                      else if fmlookup (style tc) ''dash'' = Some (PyStr ''dashdot'') then ''-.''
                      else ''--'')
                   \<and> color l = Some (case fmlookup (style tc) ''color'' of
                                      None \<Rightarrow> PyStr ''red'' | Some c \<Rightarrow> c))
                 (snd (panels ! k)) (fit_drawn config fit)"
      by blast
  qed
  with g show ?thesis by blast
qed

theorem fit_traces_linestyle_and_color_witness:
  "\<exists>fig. create_matplotlib_figure one_axes_grid list_pyplot ds_raw_ex qubits_ex [two_fits_config]
        (Some ds_fit_ex) = Inr fig
     \<and> map (\<lambda>l. (linestyle l, color l)) (lines (fig_axes fig ! 0))
         = [(''-'', None), ('':'', Some (PyStr ''blue'')), (''--'', Some (PyStr ''red''))]"
proof -
  obtain fig where run: "create_matplotlib_figure one_axes_grid list_pyplot ds_raw_ex qubits_ex
      [two_fits_config] (Some ds_fit_ex) = Inr fig"
    and raw_color: "map color (take 1 (lines (fig_axes fig ! 0))) = [None]"
    by (simp add: mpl_defs ex_defs)
  from fit_traces_linestyle_and_color [OF run] obtain grid panels where
    g: "one_axes_grid ds_raw_ex (map grid_location qubits_ex) = Inr grid"
    and len: "length panels = length (grid_iter grid)"
    and lines: "\<forall>h<length (fig_axes (grid_fig grid)). lines (fig_axes fig ! h)
            = lines (fig_axes (grid_fig grid) ! h)
              @ concat (map (\<lambda>p. fst (snd p) @ snd (snd p))
                  (filter (\<lambda>p. fst p = h) (zip (map fst (grid_iter grid)) panels)))"
    and p: "\<forall>k<length panels. \<exists>q raw fit. first_value (snd (grid_iter grid ! k)) = Inr q
            \<and> sel_qubit ds_raw_ex q = Inr raw \<and> sel_fit (Some ds_fit_ex) q = Inr fit
            \<and> list_all2 (\<lambda>l tc. marker l = Some ''.'' \<and> linestyle l = ''-'')
                 (fst (panels ! k)) (filter (drawable raw) (traces two_fits_config))
            \<and> list_all2 (\<lambda>l tc.
                   linestyle l =
                     (if fmlookup (style tc) ''dash'' = Some (PyStr ''solid'') then ''-''
                      else if fmlookup (style tc) ''dash'' = Some (PyStr ''dot'') then '':''
                      else if fmlookup (style tc) ''dash'' = Some (PyStr ''dash'') then ''--''
                      else if fmlookup (style tc) ''dash'' = Some (PyStr ''longdash'') then ''-.''
                      else if fmlookup (style tc) ''dash'' = Some (PyStr ''dashdot'') then ''-.''
                      else ''--'')
                   \<and> color l = Some (case fmlookup (style tc) ''color'' of
                                      None \<Rightarrow> PyStr ''red'' | Some c \<Rightarrow> c))
                 (snd (panels ! k)) (fit_drawn two_fits_config fit)"
    by blast
  from g have grid: "grid = \<lparr>grid_fig = plt_subplots, iter_axes = [(0, q0_dict)]\<rparr>"
    by (auto simp: one_axes_grid_def)
  with len obtain rs fs where panels: "panels = [(rs, fs)]"
    by (auto simp: length_Suc_conv grid_iter_def)
  have slices: "raw = raw_q0 \<and> fit = Some fit_q0"
    if "first_value q0_dict = Inr q" and "sel_qubit ds_raw_ex q = Inr raw"
      and "sel_fit (Some ds_fit_ex) q = Inr fit"
    for q raw fit
    using that
    by (auto simp: first_value_def sel_qubit_def sel_fit_def ebind_simps ex_defs
        split: if_splits)
  have drawn: "filter (drawable raw_q0) (traces two_fits_config) = [amplitude_trace]"
    "fit_drawn two_fits_config (Some fit_q0) = [detuning_trace, amplitude_trace]"
    by (simp_all add: drawable_def fit_drawn_def ds_bool_def data_vars_def ds_contains_def
        ex_defs)
  have styles: "fmlookup (style detuning_trace) ''dash'' = Some (PyStr ''dot'')"
    "fmlookup (style detuning_trace) ''color'' = Some (PyStr ''blue'')"
    "fmlookup (style amplitude_trace) ''dash'' = None"
    "fmlookup (style amplitude_trace) ''color'' = None"
    by (simp_all add: ex_defs)
  from panels have in_range: "0 < length panels" by simp
  from p [rule_format, OF in_range] obtain q raw fit where
    s0: "first_value (snd (grid_iter grid ! 0)) = Inr q" "sel_qubit ds_raw_ex q = Inr raw"
      "sel_fit (Some ds_fit_ex) q = Inr fit"
    and r0: "list_all2 (\<lambda>l tc. marker l = Some ''.'' \<and> linestyle l = ''-'')
                 (fst (panels ! 0)) (filter (drawable raw) (traces two_fits_config))"
    and f0: "list_all2 (\<lambda>l tc.
                   linestyle l =
                     (if fmlookup (style tc) ''dash'' = Some (PyStr ''solid'') then ''-''
                      else if fmlookup (style tc) ''dash'' = Some (PyStr ''dot'') then '':''
                      else if fmlookup (style tc) ''dash'' = Some (PyStr ''dash'') then ''--''
                      else if fmlookup (style tc) ''dash'' = Some (PyStr ''longdash'') then ''-.''
                      else if fmlookup (style tc) ''dash'' = Some (PyStr ''dashdot'') then ''-.''
                      else ''--'')
                   \<and> color l = Some (case fmlookup (style tc) ''color'' of
                                      None \<Rightarrow> PyStr ''red'' | Some c \<Rightarrow> c))
                 (snd (panels ! 0)) (fit_drawn two_fits_config fit)"
    by blast
  from s0 grid have "first_value q0_dict = Inr q" by (simp add: grid_iter_def)
  from slices [OF this s0(2,3)] have sl: "raw = raw_q0" "fit = Some fit_q0" by simp_all
  from r0 sl drawn panels have r: "list_all2 (\<lambda>l tc. linestyle l = ''-'') rs [amplitude_trace]"
    by (auto simp: list_all2_Cons2)
  from f0 sl drawn panels have f: "list_all2 (\<lambda>l tc.
                   linestyle l =
                     (if fmlookup (style tc) ''dash'' = Some (PyStr ''solid'') then ''-''
                      else if fmlookup (style tc) ''dash'' = Some (PyStr ''dot'') then '':''
                      else if fmlookup (style tc) ''dash'' = Some (PyStr ''dash'') then ''--''
                      else if fmlookup (style tc) ''dash'' = Some (PyStr ''longdash'') then ''-.''
                      else if fmlookup (style tc) ''dash'' = Some (PyStr ''dashdot'') then ''-.''
                      else ''--'')
                   \<and> color l = Some (case fmlookup (style tc) ''color'' of
                                      None \<Rightarrow> PyStr ''red'' | Some c \<Rightarrow> c))
                 fs [detuning_trace, amplitude_trace]"
    by simp
  from r obtain r0 where rs: "rs = [r0]" "linestyle r0 = ''-''"
    by (auto simp: list_all2_Cons2)
  from f obtain f0 f1 where fs: "fs = [f0, f1]" "linestyle f0 = '':''"
    "color f0 = Some (PyStr ''blue'')" "linestyle f1 = ''--''" "color f1 = Some (PyStr ''red'')"
    by (auto simp: list_all2_Cons2 styles)
  from lines [rule_format, of 0] panels grid
  have "lines (fig_axes fig ! 0) = rs @ fs"
    by (simp add: grid_iter_def plt_subplots_def blank_axes_def)
  with rs fs raw_color
  have "map (\<lambda>l. (linestyle l, color l)) (lines (fig_axes fig ! 0))
         = [(''-'', None), ('':'', Some (PyStr ''blue'')), (''--'', Some (PyStr ''red''))]"
    by simp
  with run show ?thesis
    by (intro exI [of _ fig] conjI)
qed

section \<open>Figure dimensions\<close>

text \<open>
  C8. For a non-empty \<^verbatim>\<open>plot_configs\<close>, a figure that \<^verbatim>\<open>create_plotly_figure\<close> returns
  has height \<open>350 * n_rows\<close> and width \<open>max 800 (350 * n_cols)\<close>, with \<open>n_rows\<close> and
  \<open>n_cols\<close> those of the grid that the layout provider made for the raw dataset and the
  qubits' grid locations. For two rows and three columns these are 700 and 1050.
\<close>

theorem plotly_figure_dimensions:
  assumes "create_plotly_figure G lib ds_raw qubits plot_configs ds_fit = Inr fig"
    and "plot_configs \<noteq> []"
  shows "\<exists>grid l. G ds_raw (map grid_location qubits) = Inr grid \<and> fig_layout fig = Some l
     \<and> height l = 350 * n_rows grid \<and> width l = max 800 (350 * n_cols grid)"
  using assms
  by (cases plot_configs)
     (auto simp: create_plotly_figure_def ebind_def update_layout_def split: sum.splits)

theorem plotly_figure_dimensions_witness:
  "\<exists>fig l. create_plotly_figure grid_2x3 list_lib ds_raw_six qubits_six [raw_only_config] None
       = Inr fig
     \<and> fig_layout fig = Some l \<and> height l = 700 \<and> width l = 1050"
proof -
  obtain fig where
    run: "create_plotly_figure grid_2x3 list_lib ds_raw_six qubits_six [raw_only_config] None
       = Inr fig"
    using six_qubit_figure_is_returned by blast
  have ne: "[raw_only_config] \<noteq> []" by simp
  from plotly_figure_dimensions [OF run ne] obtain grid l where
    g: "grid_2x3 ds_raw_six (map grid_location qubits_six) = Inr grid"
    and l: "fig_layout fig = Some l" "height l = 350 * n_rows grid"
      "width l = max 800 (350 * n_cols grid)"
    by blast
  from g have "n_rows grid = 2" "n_cols grid = 3" by (auto simp: grid_2x3_def)
  with l have "height l = 700" "width l = 1050" by simp_all
  with run l show ?thesis by blast
qed

section \<open>Only the first configuration\<close>

text \<open>
  C9. For a non-empty \<^verbatim>\<open>plot_configs\<close> both builders use \<^verbatim>\<open>plot_configs[0]\<close> only: the
  result, figure or exception, is the result of the same call with the list cut down
  to its first element.
\<close>

theorem only_first_plot_config_is_used:
  "plot_configs \<noteq> [] \<Longrightarrow>
     create_plotly_figure G lib ds_raw qubits plot_configs ds_fit =
       create_plotly_figure G lib ds_raw qubits (take 1 plot_configs) ds_fit
   \<and> create_matplotlib_figure Q mlib ds_raw qubits plot_configs ds_fit =
       create_matplotlib_figure Q mlib ds_raw qubits (take 1 plot_configs) ds_fit"
  by (cases plot_configs) (simp_all add: create_plotly_figure_def create_matplotlib_figure_def)

theorem only_first_plot_config_is_used_witness:
  "create_plotly_figure one_cell_grid list_lib ds_raw_ex qubits_ex [raw_only_config, fit_config]
       (Some ds_fit_ex)
     = create_plotly_figure one_cell_grid list_lib ds_raw_ex qubits_ex [raw_only_config]
       (Some ds_fit_ex)
   \<and> create_matplotlib_figure one_axes_grid list_pyplot ds_raw_ex qubits_ex
       [raw_only_config, fit_config] (Some ds_fit_ex)
     = create_matplotlib_figure one_axes_grid list_pyplot ds_raw_ex qubits_ex [raw_only_config]
       (Some ds_fit_ex)"
proof -
  have ne: "[raw_only_config, fit_config] \<noteq> []" by simp
  from only_first_plot_config_is_used
    [OF ne, of one_cell_grid list_lib ds_raw_ex qubits_ex "Some ds_fit_ex" one_axes_grid
       list_pyplot]
  show ?thesis by simp
qed

section \<open>A fit slice without data variables\<close>



end
